theory Spec2Isabelle
  imports Main
begin

section \<open>JavaScript values and built-ins the gateway relies on\<close>

text \<open>
  Strings are \<^typ>\<open>string\<close>. An optional value (\<open>string | undefined\<close>) is an
  \<^typ>\<open>'a option\<close>; a JavaScript condition on it (\<open>if (x)\<close>) is its truthiness:
  defined and not the empty string. Objects with named fields are records; the fields of
  a record carry a short prefix where the source uses the same name in several objects or
  as the name of a local variable.
\<close>

definition truthy :: "string option \<Rightarrow> bool" where
  "truthy x = (case x of None \<Rightarrow> False | Some s \<Rightarrow> s \<noteq> [])"

text \<open>The objects handed to \<open>JSON.stringify\<close>: object literals keep the order of their keys.\<close>

datatype json =
    JNull
  | JBool bool
  | JNum int
  | JStr string
  | JArr "json list"
  | JObj "(string \<times> json) list"

text \<open>Truthiness of a parsed JSON value, and of a field that may be absent.\<close>

fun js_truthy :: "json \<Rightarrow> bool" where
  "js_truthy JNull = False"
| "js_truthy (JBool b) = b"
| "js_truthy (JNum n) = (n \<noteq> 0)"
| "js_truthy (JStr s) = (s \<noteq> [])"
| "js_truthy (JArr xs) = True"
| "js_truthy (JObj kvs) = True"

definition field_truthy :: "json option \<Rightarrow> bool" where
  "field_truthy x = (case x of None \<Rightarrow> False | Some v \<Rightarrow> js_truthy v)"

fun isArray :: "json \<Rightarrow> bool" where
  "isArray (JArr xs) = True"
| "isArray v = False"

subsection \<open>\<open>JSON.stringify\<close>\<close>

definition backslash :: char where
  "backslash = CHR 0x5C"

definition dquote :: char where
  "dquote = CHR 0x22"

definition newline :: char where
  "newline = CHR 0x0A"

definition hex_digit :: "nat \<Rightarrow> char" where
  "hex_digit n = ''0123456789abcdef'' ! (n mod 16)"

definition dec_digit :: "nat \<Rightarrow> char" where
  "dec_digit n = ''0123456789'' ! (n mod 10)"

function show_nat :: "nat \<Rightarrow> string" where
  "show_nat n = (if n < 10 then [dec_digit n] else show_nat (n div 10) @ [dec_digit n])"
  by pat_completeness auto
termination
  by (relation "measure (\<lambda>n. n)") auto

declare show_nat.simps [simp del]

definition show_int :: "int \<Rightarrow> string" where
  "show_int i = (if i < 0 then CHR ''-'' # show_nat (nat (- i)) else show_nat (nat i))"

text \<open>
  QuoteJSONString of ECMA-262: the two-character escapes, \<open>\u00xx\<close> for the other
  control characters, every other character as it is.
\<close>

definition escape_char :: "char \<Rightarrow> string" where
  "escape_char c =
     (if c = CHR 0x08 then [backslash, CHR ''b'']
      else if c = CHR 0x09 then [backslash, CHR ''t'']
      else if c = CHR 0x0A then [backslash, CHR ''n'']
      else if c = CHR 0x0C then [backslash, CHR ''f'']
      else if c = CHR 0x0D then [backslash, CHR ''r'']
      else if c = dquote then [backslash, dquote]
      else if c = backslash then [backslash, backslash]
      else if (of_char c :: nat) < 32
        then [backslash, CHR ''u'', CHR ''0'', CHR ''0'',
              hex_digit (of_char c div 16), hex_digit (of_char c)]
      else [c])"

definition quote_json :: "string \<Rightarrow> string" where
  "quote_json s = dquote # concat (map escape_char s) @ [dquote]"

fun join_with :: "string \<Rightarrow> string list \<Rightarrow> string" where
  "join_with sep [] = []"
| "join_with sep [x] = x"
| "join_with sep (x # y # ys) = x @ sep @ join_with sep (y # ys)"

fun JSON_stringify :: "json \<Rightarrow> string" where
  "JSON_stringify JNull = ''null''"
| "JSON_stringify (JBool b) = (if b then ''true'' else ''false'')"
| "JSON_stringify (JNum n) = show_int n"
| "JSON_stringify (JStr s) = quote_json s"
| "JSON_stringify (JArr xs) = ''['' @ join_with '','' (map JSON_stringify xs) @ '']''"
| "JSON_stringify (JObj kvs) =
     ''{'' @ join_with '','' (map (\<lambda>kv. quote_json (fst kv) @ '':'' @ JSON_stringify (snd kv)) kvs)
       @ ''}''"

text \<open>Reading a property of an object: \<open>obj.key\<close>, \<open>undefined\<close> when it is not there.\<close>

fun get_field :: "json \<Rightarrow> string \<Rightarrow> json option" where
  "get_field (JObj kvs) k = map_of kvs k"
| "get_field v k = None"

text \<open>A value inside a template literal.\<close>

fun template_string :: "json option \<Rightarrow> string" where
  "template_string None = ''undefined''"
| "template_string (Some (JStr s)) = s"
| "template_string (Some v) = JSON_stringify v"

subsection \<open>\<open>JSON.parse\<close>: which texts parse\<close>

text \<open>
  \<open>JSON.parse\<close> returns a value exactly on the texts of the JSON grammar (ECMA-404) and
  throws a SyntaxError on every other text. The recogniser below reads the text once, left
  to right, with the stack of the arrays and objects that are still open.
\<close>

datatype container = InArray | InObject

datatype parse_mode =
    ExpectValue
  | ExpectValueOrClose
  | ExpectKeyOrClose
  | ExpectKey
  | ExpectColon
  | AfterValue
  | InString bool
  | InEscape bool
  | InUnicode bool nat
  | NumMinus
  | NumZero
  | NumInt
  | NumDot
  | NumFrac
  | NumE
  | NumESign
  | NumExp
  | InLiteral string

definition is_ws :: "char \<Rightarrow> bool" where
  "is_ws c = (c = CHR '' '' \<or> c = CHR 0x09 \<or> c = CHR 0x0A \<or> c = CHR 0x0D)"

definition is_digit :: "char \<Rightarrow> bool" where
  "is_digit c = (c \<in> set ''0123456789'')"

definition is_hex :: "char \<Rightarrow> bool" where
  "is_hex c = (c \<in> set ''0123456789abcdefABCDEF'')"

definition begin_value :: "container list \<Rightarrow> char \<Rightarrow> (parse_mode \<times> container list) option" where
  "begin_value st c =
     (if c = CHR ''{'' then Some (ExpectKeyOrClose, InObject # st)
      else if c = CHR ''['' then Some (ExpectValueOrClose, InArray # st)
      else if c = dquote then Some (InString False, st)
      else if c = CHR ''-'' then Some (NumMinus, st)
      else if c = CHR ''0'' then Some (NumZero, st)
      else if is_digit c then Some (NumInt, st)
      else if c = CHR ''t'' then Some (InLiteral ''rue'', st)
      else if c = CHR ''f'' then Some (InLiteral ''alse'', st)
      else if c = CHR ''n'' then Some (InLiteral ''ull'', st)
      else None)"

definition after_value :: "container list \<Rightarrow> char \<Rightarrow> (parse_mode \<times> container list) option" where
  "after_value st c =
     (if is_ws c then Some (AfterValue, st)
      else (case st of
          [] \<Rightarrow> None
        | InArray # rest \<Rightarrow>
            (if c = CHR '','' then Some (ExpectValue, st)
             else if c = CHR '']'' then Some (AfterValue, rest)
             else None)
        | InObject # rest \<Rightarrow>
            (if c = CHR '','' then Some (ExpectKey, st)
             else if c = CHR ''}'' then Some (AfterValue, rest)
             else None)))"

definition string_done :: "bool \<Rightarrow> parse_mode" where
  "string_done is_key = (if is_key then ExpectColon else AfterValue)"

fun parse_step :: "parse_mode \<Rightarrow> container list \<Rightarrow> char \<Rightarrow> (parse_mode \<times> container list) option" where
  "parse_step ExpectValue st c = (if is_ws c then Some (ExpectValue, st) else begin_value st c)"
| "parse_step ExpectValueOrClose st c =
     (if is_ws c then Some (ExpectValueOrClose, st)
      else if c = CHR '']'' then Some (AfterValue, tl st)
      else begin_value st c)"
| "parse_step ExpectKeyOrClose st c =
     (if is_ws c then Some (ExpectKeyOrClose, st)
      else if c = CHR ''}'' then Some (AfterValue, tl st)
      else if c = dquote then Some (InString True, st)
      else None)"
| "parse_step ExpectKey st c =
     (if is_ws c then Some (ExpectKey, st)
      else if c = dquote then Some (InString True, st)
      else None)"
| "parse_step ExpectColon st c =
     (if is_ws c then Some (ExpectColon, st)
      else if c = CHR '':'' then Some (ExpectValue, st)
      else None)"
| "parse_step AfterValue st c = after_value st c"
| "parse_step (InString k) st c =
     (if c = dquote then Some (string_done k, st)
      else if c = backslash then Some (InEscape k, st)
      else if (of_char c :: nat) < 32 then None
      else Some (InString k, st))"
| "parse_step (InEscape k) st c =
     (if c = CHR ''u'' then Some (InUnicode k 4, st)
      else if c = dquote \<or> c = backslash \<or> c \<in> set ''/bfnrt'' then Some (InString k, st)
      else None)"
| "parse_step (InUnicode k n) st c =
     (if is_hex c then Some (if n \<le> 1 then InString k else InUnicode k (n - 1), st) else None)"
| "parse_step NumMinus st c =
     (if c = CHR ''0'' then Some (NumZero, st)
      else if is_digit c then Some (NumInt, st)
      else None)"
| "parse_step NumZero st c =
     (if c = CHR ''.'' then Some (NumDot, st)
      else if c = CHR ''e'' \<or> c = CHR ''E'' then Some (NumE, st)
      else after_value st c)"
| "parse_step NumInt st c =
     (if is_digit c then Some (NumInt, st)
      else if c = CHR ''.'' then Some (NumDot, st)
      else if c = CHR ''e'' \<or> c = CHR ''E'' then Some (NumE, st)
      else after_value st c)"
| "parse_step NumDot st c = (if is_digit c then Some (NumFrac, st) else None)"
| "parse_step NumFrac st c =
     (if is_digit c then Some (NumFrac, st)
      else if c = CHR ''e'' \<or> c = CHR ''E'' then Some (NumE, st)
      else after_value st c)"
| "parse_step NumE st c =
     (if c = CHR ''+'' \<or> c = CHR ''-'' then Some (NumESign, st)
      else if is_digit c then Some (NumExp, st)
      else None)"
| "parse_step NumESign st c = (if is_digit c then Some (NumExp, st) else None)"
| "parse_step NumExp st c = (if is_digit c then Some (NumExp, st) else after_value st c)"
| "parse_step (InLiteral rest) st c =
     (case rest of
        [] \<Rightarrow> after_value st c
      | r # rs \<Rightarrow> (if c = r then Some (if rs = [] then AfterValue else InLiteral rs, st) else None))"

fun value_complete :: "parse_mode \<Rightarrow> bool" where
  "value_complete AfterValue = True"
| "value_complete NumZero = True"
| "value_complete NumInt = True"
| "value_complete NumFrac = True"
| "value_complete NumExp = True"
| "value_complete m = False"

fun parse_run :: "parse_mode \<Rightarrow> container list \<Rightarrow> string \<Rightarrow> bool" where
  "parse_run m st [] = (value_complete m \<and> st = [])"
| "parse_run m st (c # cs) =
     (case parse_step m st c of
        None \<Rightarrow> False
      | Some (m', st') \<Rightarrow> parse_run m' st' cs)"

definition JSON_parses :: "string \<Rightarrow> bool" where
  "JSON_parses s = parse_run ExpectValue [] s"

text \<open>
  A JavaScript \<open>Map\<close> keeps its keys in the order of their first insertion; \<open>set\<close> on
  a key that is already there replaces the value where it stands.
\<close>

fun map_set :: "'k \<Rightarrow> 'v \<Rightarrow> ('k \<times> 'v) list \<Rightarrow> ('k \<times> 'v) list" where
  "map_set k v [] = [(k, v)]"
| "map_set k v (p # ps) = (if fst p = k then (k, v) # ps else p # map_set k v ps)"

definition map_get :: "('k \<times> 'v) list \<Rightarrow> 'k \<Rightarrow> 'v option" where
  "map_get m k = map_of m k"

section \<open>responseConverter.ts: the Anthropic encoder\<close>

record ClaudeUsage =
  input_tokens :: nat
  output_tokens :: nat

datatype ClaudeStopReason = End_turn | Max_tokens | Stop_sequence | Tool_use

fun stop_reason_json :: "ClaudeStopReason option \<Rightarrow> json" where
  "stop_reason_json None = JNull"
| "stop_reason_json (Some End_turn) = JStr ''end_turn''"
| "stop_reason_json (Some Max_tokens) = JStr ''max_tokens''"
| "stop_reason_json (Some Stop_sequence) = JStr ''stop_sequence''"
| "stop_reason_json (Some Tool_use) = JStr ''tool_use''"

definition usage_json :: "ClaudeUsage \<Rightarrow> json" where
  "usage_json u =
     JObj [(''input_tokens'', JNum (int (input_tokens u))),
           (''output_tokens'', JNum (int (output_tokens u)))]"

definition buildMessageStartEvent :: "string \<Rightarrow> string \<Rightarrow> json" where
  "buildMessageStartEvent messageId model =
     JObj [(''type'', JStr ''message_start''),
           (''message'', JObj [(''id'', JStr messageId),
                               (''type'', JStr ''message''),
                               (''role'', JStr ''assistant''),
                               (''model'', JStr model),
                               (''content'', JArr []),
                               (''stop_reason'', JNull),
                               (''stop_sequence'', JNull),
                               (''usage'', JObj [(''input_tokens'', JNum 0),
                                                 (''output_tokens'', JNum 0)])])]"

definition buildTextBlockStartEvent :: "nat \<Rightarrow> json" where
  "buildTextBlockStartEvent index =
     JObj [(''type'', JStr ''content_block_start''),
           (''index'', JNum (int index)),
           (''content_block'', JObj [(''type'', JStr ''text''), (''text'', JStr [])])]"

definition buildToolUseBlockStartEvent :: "nat \<Rightarrow> string \<Rightarrow> string \<Rightarrow> json" where
  "buildToolUseBlockStartEvent index toolId toolName =
     JObj [(''type'', JStr ''content_block_start''),
           (''index'', JNum (int index)),
           (''content_block'', JObj [(''type'', JStr ''tool_use''),
                                     (''id'', JStr toolId),
                                     (''name'', JStr toolName),
                                     (''input'', JObj [])])]"

definition buildTextDeltaEvent :: "nat \<Rightarrow> string \<Rightarrow> json" where
  "buildTextDeltaEvent index text =
     JObj [(''type'', JStr ''content_block_delta''),
           (''index'', JNum (int index)),
           (''delta'', JObj [(''type'', JStr ''text_delta''), (''text'', JStr text)])]"

definition buildInputJsonDeltaEvent :: "nat \<Rightarrow> string \<Rightarrow> json" where
  "buildInputJsonDeltaEvent index partialJson =
     JObj [(''type'', JStr ''content_block_delta''),
           (''index'', JNum (int index)),
           (''delta'', JObj [(''type'', JStr ''input_json_delta''),
                             (''partial_json'', JStr partialJson)])]"

definition buildContentBlockStopEvent :: "nat \<Rightarrow> json" where
  "buildContentBlockStopEvent index =
     JObj [(''type'', JStr ''content_block_stop''), (''index'', JNum (int index))]"

definition buildMessageDeltaEvent :: "ClaudeStopReason option \<Rightarrow> ClaudeUsage \<Rightarrow> json" where
  "buildMessageDeltaEvent stopReason usage =
     JObj [(''type'', JStr ''message_delta''),
           (''delta'', JObj [(''stop_reason'', stop_reason_json stopReason),
                             (''stop_sequence'', JNull)]),
           (''usage'', usage_json usage)]"

definition buildMessageStopEvent :: json where
  "buildMessageStopEvent = JObj [(''type'', JStr ''message_stop'')]"

definition buildPingEvent :: json where
  "buildPingEvent = JObj [(''type'', JStr ''ping'')]"

definition buildErrorEvent :: "string \<Rightarrow> string \<Rightarrow> json" where
  "buildErrorEvent errorType message =
     JObj [(''type'', JStr ''error''),
           (''error'', JObj [(''type'', JStr errorType), (''message'', JStr message)])]"

definition formatSSE :: "json \<Rightarrow> string" where
  "formatSSE event =
     ''event: '' @ template_string (get_field event ''type'') @ [newline]
       @ ''data: '' @ JSON_stringify event @ [newline, newline]"

definition mapStopReason :: "string option \<Rightarrow> ClaudeStopReason option" where
  "mapStopReason reason =
     (if \<not> truthy reason then None
      else if reason = Some ''complete'' \<or> reason = Some ''stop'' \<or> reason = Some ''end_turn''
        then Some End_turn
      else if reason = Some ''max_tokens'' \<or> reason = Some ''length'' then Some Max_tokens
      else if reason = Some ''tool_use'' \<or> reason = Some ''tool_calls''
              \<or> reason = Some ''function_call''
        then Some Tool_use
      else if reason = Some ''stop_sequence'' then Some Stop_sequence
      else Some End_turn)"

text \<open>
  The per-call buffer of an encoder (the OpenAI encoder's entry), and the Anthropic
  encoder's entry, which has one more field.
\<close>

record ToolCallBuffer =
  index :: nat
  name :: string
  argsBuffer :: string

record AnthropicToolCall = ToolCallBuffer +
  started :: bool

record StreamingResponseBuilder =
  messageId :: string
  model :: string
  textBlockIndex :: nat
  toolBlockCounter :: nat
  currentToolCalls :: "(string \<times> AnthropicToolCall) list"
  usage :: ClaudeUsage
  stopReason :: "ClaudeStopReason option"

text \<open>
  \<open>crypto.randomUUID()\<close> is an input of the constructors: the identifier is its text
  without the dashes (cut to 24 characters for a message id).
\<close>

definition without_dashes :: "string \<Rightarrow> string" where
  "without_dashes uuid = filter (\<lambda>c. c \<noteq> CHR ''-'') uuid"

definition new_StreamingResponseBuilder :: "string \<Rightarrow> string \<Rightarrow> StreamingResponseBuilder" where
  "new_StreamingResponseBuilder uuid m =
     \<lparr>messageId = ''msg_'' @ take 24 (without_dashes uuid),
      model = m,
      textBlockIndex = 0,
      toolBlockCounter = 0,
      currentToolCalls = [],
      usage = \<lparr>input_tokens = 0, output_tokens = 0\<rparr>,
      stopReason = None\<rparr>"

text \<open>A method returns what it returns in the source, paired with the encoder after the call.\<close>

definition getInitialEvents :: "StreamingResponseBuilder \<Rightarrow> string" where
  "getInitialEvents b =
     formatSSE (buildMessageStartEvent (messageId b) (model b))
       @ formatSSE (buildTextBlockStartEvent (textBlockIndex b))
       @ formatSSE buildPingEvent"

definition handleTextDelta :: "StreamingResponseBuilder \<Rightarrow> string \<Rightarrow> string" where
  "handleTextDelta b text = formatSSE (buildTextDeltaEvent (textBlockIndex b) text)"

definition handleToolCallStart ::
  "StreamingResponseBuilder \<Rightarrow> string \<Rightarrow> string \<Rightarrow> string \<times> StreamingResponseBuilder" where
  "handleToolCallStart b toolId toolName =
     (let counter = toolBlockCounter b + 1;
          i = textBlockIndex b + counter
      in (formatSSE (buildToolUseBlockStartEvent i toolId toolName),
          b\<lparr>toolBlockCounter := counter,
            currentToolCalls :=
              map_set toolId \<lparr>index = i, name = toolName, argsBuffer = [], started = True\<rparr>
                (currentToolCalls b)\<rparr>))"

definition handleToolCallChunk ::
  "StreamingResponseBuilder \<Rightarrow> string \<Rightarrow> string \<Rightarrow> string \<times> StreamingResponseBuilder" where
  "handleToolCallChunk b toolId chunk =
     (case map_get (currentToolCalls b) toolId of
        None \<Rightarrow> ([], b)
      | Some toolCall \<Rightarrow>
          (let toolCall' = toolCall\<lparr>argsBuffer := argsBuffer toolCall @ chunk\<rparr>;
               b' = b\<lparr>currentToolCalls := map_set toolId toolCall' (currentToolCalls b)\<rparr>
           in if JSON_parses (argsBuffer toolCall')
              then (formatSSE (buildInputJsonDeltaEvent (index toolCall') (argsBuffer toolCall')), b')
              else ([], b')))"

definition handleToolCallEnd :: "StreamingResponseBuilder \<Rightarrow> string \<Rightarrow> string \<Rightarrow> string" where
  "handleToolCallEnd b toolId args =
     (case map_get (currentToolCalls b) toolId of
        None \<Rightarrow> []
      | Some toolCall \<Rightarrow>
          (if argsBuffer toolCall \<noteq> args
           then formatSSE (buildInputJsonDeltaEvent (index toolCall) args)
           else []))"

definition setUsage :: "StreamingResponseBuilder \<Rightarrow> nat \<Rightarrow> nat \<Rightarrow> StreamingResponseBuilder" where
  "setUsage b inputTokens outputTokens =
     b\<lparr>usage := \<lparr>input_tokens = inputTokens, output_tokens = outputTokens\<rparr>\<rparr>"

definition setStopReason :: "StreamingResponseBuilder \<Rightarrow> string \<Rightarrow> StreamingResponseBuilder" where
  "setStopReason b reason = b\<lparr>stopReason := mapStopReason (Some reason)\<rparr>"

text \<open>The loop of \<open>getFinalEvents\<close> over the entries of the map, appending to \<open>output\<close>.\<close>

fun close_tool_blocks :: "string \<Rightarrow> (string \<times> AnthropicToolCall) list \<Rightarrow> string" where
  "close_tool_blocks output [] = output"
| "close_tool_blocks output (entry # entries) =
     close_tool_blocks (output @ formatSSE (buildContentBlockStopEvent (index (snd entry)))) entries"

definition final_stop_reason :: "StreamingResponseBuilder \<Rightarrow> ClaudeStopReason option" where
  "final_stop_reason b =
     (if length (currentToolCalls b) > 0 then Some Tool_use
      else (case stopReason b of None \<Rightarrow> Some End_turn | Some r \<Rightarrow> Some r))"

definition getFinalEvents :: "StreamingResponseBuilder \<Rightarrow> string" where
  "getFinalEvents b =
     (let output = [];
          output = output @ formatSSE (buildContentBlockStopEvent (textBlockIndex b));
          output = close_tool_blocks output (currentToolCalls b);
          output = output @ formatSSE (buildMessageDeltaEvent (final_stop_reason b) (usage b));
          output = output @ formatSSE buildMessageStopEvent
      in output)"

definition getErrorEvent :: "StreamingResponseBuilder \<Rightarrow> string \<Rightarrow> string \<Rightarrow> string" where
  "getErrorEvent b errorType message = formatSSE (buildErrorEvent errorType message)"

section \<open>openaiResponseBuilder.ts: the OpenAI encoder\<close>

datatype FinishReason = Stop | Length | Tool_calls

fun finish_reason_json :: "FinishReason option \<Rightarrow> json" where
  "finish_reason_json None = JNull"
| "finish_reason_json (Some Stop) = JStr ''stop''"
| "finish_reason_json (Some Length) = JStr ''length''"
| "finish_reason_json (Some Tool_calls) = JStr ''tool_calls''"

definition formatOpenAISSE :: "json \<Rightarrow> string" where
  "formatOpenAISSE chunk = ''data: '' @ JSON_stringify chunk @ [newline, newline]"

definition formatOpenAISSEDone :: string where
  "formatOpenAISSEDone = ''data: [DONE]'' @ [newline, newline]"

definition mapToOpenAIFinishReason :: "string option \<Rightarrow> bool \<Rightarrow> FinishReason option" where
  "mapToOpenAIFinishReason reason hasToolCalls =
     (if hasToolCalls then Some Tool_calls
      else if \<not> truthy reason then None
      else if reason = Some ''complete'' \<or> reason = Some ''stop'' \<or> reason = Some ''end_turn''
        then Some Stop
      else if reason = Some ''max_tokens'' \<or> reason = Some ''length'' then Some Length
      else if reason = Some ''tool_use'' \<or> reason = Some ''tool_calls''
              \<or> reason = Some ''function_call''
        then Some Tool_calls
      else Some Stop)"

text \<open>
  The fields of the OpenAI encoder carry the prefix \<open>oa_\<close> where the Anthropic encoder has
  a field of the same name. \<open>oa_created\<close> is \<open>Math.floor(Date.now() / 1000)\<close> at
  construction, an input of the constructor.
\<close>

record OpenAIStreamingBuilder =
  oa_id :: string
  oa_model :: string
  oa_created :: nat
  toolCallIndex :: nat
  oa_currentToolCalls :: "(string \<times> ToolCallBuffer) list"
  oa_promptTokens :: nat
  oa_completionTokens :: nat

definition new_OpenAIStreamingBuilder :: "string \<Rightarrow> nat \<Rightarrow> string \<Rightarrow> OpenAIStreamingBuilder" where
  "new_OpenAIStreamingBuilder uuid now m =
     \<lparr>oa_id = ''chatcmpl-'' @ without_dashes uuid,
      oa_model = m,
      oa_created = now,
      toolCallIndex = 0,
      oa_currentToolCalls = [],
      oa_promptTokens = 0,
      oa_completionTokens = 0\<rparr>"

text \<open>The chunk object every builder method fills in: one choice, with its delta.\<close>

definition stream_chunk :: "OpenAIStreamingBuilder \<Rightarrow> json \<Rightarrow> FinishReason option \<Rightarrow> (string \<times> json) list" where
  "stream_chunk b delta finishReason =
     [(''id'', JStr (oa_id b)),
      (''object'', JStr ''chat.completion.chunk''),
      (''created'', JNum (int (oa_created b))),
      (''model'', JStr (oa_model b)),
      (''choices'', JArr [JObj [(''index'', JNum 0),
                                (''delta'', delta),
                                (''finish_reason'', finish_reason_json finishReason)]])]"

definition buildInitialChunk :: "OpenAIStreamingBuilder \<Rightarrow> string" where
  "buildInitialChunk b =
     formatOpenAISSE
       (JObj (stream_chunk b (JObj [(''role'', JStr ''assistant''), (''content'', JStr [])]) None))"

definition buildContentChunk :: "OpenAIStreamingBuilder \<Rightarrow> string \<Rightarrow> string" where
  "buildContentChunk b content =
     formatOpenAISSE (JObj (stream_chunk b (JObj [(''content'', JStr content)]) None))"

definition buildToolCallStartChunk ::
  "OpenAIStreamingBuilder \<Rightarrow> string \<Rightarrow> string \<Rightarrow> string \<times> OpenAIStreamingBuilder" where
  "buildToolCallStartChunk b toolId toolName =
     (let i = toolCallIndex b;
          b' = b\<lparr>toolCallIndex := toolCallIndex b + 1,
                 oa_currentToolCalls :=
                   map_set toolId \<lparr>index = i, name = toolName, argsBuffer = []\<rparr>
                     (oa_currentToolCalls b)\<rparr>
      in (formatOpenAISSE
            (JObj (stream_chunk b'
               (JObj [(''tool_calls'',
                       JArr [JObj [(''index'', JNum (int i)),
                                   (''id'', JStr toolId),
                                   (''type'', JStr ''function''),
                                   (''function'', JObj [(''name'', JStr toolName),
                                                        (''arguments'', JStr [])])]])])
               None)),
          b'))"

definition tool_args_delta :: "nat \<Rightarrow> string \<Rightarrow> json" where
  "tool_args_delta i args =
     JObj [(''tool_calls'',
            JArr [JObj [(''index'', JNum (int i)),
                        (''function'', JObj [(''arguments'', JStr args)])]])]"

definition buildToolCallArgsChunk ::
  "OpenAIStreamingBuilder \<Rightarrow> string \<Rightarrow> string \<Rightarrow> string \<times> OpenAIStreamingBuilder" where
  "buildToolCallArgsChunk b toolId args =
     (case map_get (oa_currentToolCalls b) toolId of
        None \<Rightarrow> ([], b)
      | Some toolCall \<Rightarrow>
          (formatOpenAISSE (JObj (stream_chunk b (tool_args_delta (index toolCall) args) None)), b))"

definition oa_setUsage :: "OpenAIStreamingBuilder \<Rightarrow> nat \<Rightarrow> nat \<Rightarrow> OpenAIStreamingBuilder" where
  "oa_setUsage b promptTokens completionTokens =
     b\<lparr>oa_promptTokens := promptTokens, oa_completionTokens := completionTokens\<rparr>"

definition buildFinalChunk :: "OpenAIStreamingBuilder \<Rightarrow> FinishReason option \<Rightarrow> string" where
  "buildFinalChunk b finishReason =
     formatOpenAISSE
       (JObj (stream_chunk b (JObj []) finishReason
              @ [(''usage'',
                  JObj [(''prompt_tokens'', JNum (int (oa_promptTokens b))),
                        (''completion_tokens'', JNum (int (oa_completionTokens b))),
                        (''total_tokens'',
                         JNum (int (oa_promptTokens b + oa_completionTokens b)))])]))"

definition buildDone :: "OpenAIStreamingBuilder \<Rightarrow> string" where
  "buildDone b = formatOpenAISSEDone"

definition hasToolCalls :: "OpenAIStreamingBuilder \<Rightarrow> bool" where
  "hasToolCalls b = (length (oa_currentToolCalls b) > 0)"

section \<open>index.ts (message converter): the model router \<open>mapClaudeModel\<close>\<close>

text \<open>
  \<open>String.prototype.split\<close> with a one-character separator cuts at \<^emph>\<open>every\<close> occurrence
  of the separator; its second argument only limits how many of the pieces are returned.
  A \<^typ>\<open>char\<close> stands for a code unit below \<open>0x100\<close>; \<open>trim\<close> removes the white space
  and line terminators among them from both ends.
\<close>

fun split_on :: "char \<Rightarrow> string \<Rightarrow> string list" where
  "split_on sep [] = [[]]"
| "split_on sep (c # cs) =
     (if c = sep then [] # split_on sep cs
      else (case split_on sep cs of
              [] \<Rightarrow> [[c]]
            | piece # pieces \<Rightarrow> (c # piece) # pieces))"

definition js_split :: "string \<Rightarrow> char \<Rightarrow> nat \<Rightarrow> string list" where
  "js_split s sep limit = take limit (split_on sep s)"

definition js_includes :: "string \<Rightarrow> char \<Rightarrow> bool" where
  "js_includes s c = (c \<in> set s)"

definition is_trimmed_char :: "char \<Rightarrow> bool" where
  "is_trimmed_char c =
     (c = CHR 0x09 \<or> c = CHR 0x0A \<or> c = CHR 0x0B \<or> c = CHR 0x0C \<or> c = CHR 0x0D
      \<or> c = CHR 0x20 \<or> c = CHR 0xA0)"

definition trim :: "string \<Rightarrow> string" where
  "trim s = rev (dropWhile is_trimmed_char (rev (dropWhile is_trimmed_char s)))"

text \<open>
  What \<open>mapClaudeModel\<close> returns: a mapping, \<open>null\<close>, or, when the model string names a
  member every object inherits from \<open>Object.prototype\<close>, that member (the table is an object
  literal read with \<open>claudeModelMappings[model]\<close>); such a value has neither a
  \<open>providerId\<close> nor a \<open>modelId\<close>.
\<close>

datatype MappingResult = Mapping string string | Inherited string | NoMapping

definition claudeModelMappings :: "(string \<times> string \<times> string) list" where
  "claudeModelMappings =
     [(''claude-3-5-sonnet-20241022'', ''anthropic'', ''claude-3-5-sonnet-20241022''),
      (''claude-3-5-haiku-20241022'', ''anthropic'', ''claude-3-5-haiku-20241022''),
      (''claude-3-opus-20240229'', ''anthropic'', ''claude-3-opus-20240229''),
      (''claude-3-sonnet-20240229'', ''anthropic'', ''claude-3-sonnet-20240229''),
      (''claude-3-haiku-20240307'', ''anthropic'', ''claude-3-haiku-20240307''),
      (''claude-sonnet-4-20250514'', ''anthropic'', ''claude-sonnet-4-20250514''),
      (''claude-opus-4-20250514'', ''anthropic'', ''claude-opus-4-20250514'')]"

definition object_prototype_members :: "string list" where
  "object_prototype_members =
     [''constructor'', ''__defineGetter__'', ''__defineSetter__'', ''hasOwnProperty'',
      ''__lookupGetter__'', ''__lookupSetter__'', ''isPrototypeOf'', ''propertyIsEnumerable'',
      ''toString'', ''valueOf'', ''__proto__'', ''toLocaleString'']"

text \<open>
  \<open>if (model.includes(sep)) { const [providerId, modelId] = model.split(sep, 2);
  if (providerId && modelId) return ... }\<close>: the pair that is returned, or \<open>None\<close> when
  control falls through to the next statement.
\<close>

definition split_two :: "string \<Rightarrow> char \<Rightarrow> (string \<times> string) option" where
  "split_two modelString sep =
     (if js_includes modelString sep
      then (case js_split modelString sep 2 of
              providerId # modelId # rest \<Rightarrow>
                (if providerId \<noteq> [] \<and> modelId \<noteq> [] then Some (providerId, modelId) else None)
            | _ \<Rightarrow> None)
      else None)"

definition text_of :: "string option \<Rightarrow> string" where
  "text_of x = (case x of None \<Rightarrow> [] | Some s \<Rightarrow> s)"

definition mapClaudeModel :: "string \<Rightarrow> string option \<Rightarrow> string option \<Rightarrow> MappingResult" where
  "mapClaudeModel modelString defaultProviderId defaultModelId =
     (if truthy defaultProviderId \<and> truthy defaultModelId
      then Mapping (text_of defaultProviderId) (text_of defaultModelId)
      else (case split_two modelString (CHR ''/'') of
          Some (p, m) \<Rightarrow> Mapping p m
        | None \<Rightarrow>
      (case split_two modelString (CHR '','') of
          Some (p, m) \<Rightarrow> Mapping (trim p) (trim m)
        | None \<Rightarrow>
      (case map_of claudeModelMappings modelString of
          Some (p, m) \<Rightarrow> Mapping p m
        | None \<Rightarrow>
      (if modelString \<in> set object_prototype_members then Inherited modelString
       else if truthy defaultProviderId then Mapping (text_of defaultProviderId) modelString
       else NoMapping)))))"

text \<open>The \<open>providerId\<close> that \<open>const { providerId, modelId } = modelMapping\<close> binds.\<close>

fun providerId_of :: "MappingResult \<Rightarrow> string option" where
  "providerId_of (Mapping p m) = Some p"
| "providerId_of r = None"

section \<open>index.ts: the HTTP handlers\<close>

subsection \<open>The provider's event stream\<close>

record TotalUsage =
  prompt_tokens :: nat
  completion_tokens :: nat
  total_tokens :: nat
  context_length :: nat

record PermissionRequest =
  pr_toolName :: string
  pr_serverName :: string
  pr_permissionType :: string
  pr_description :: string
  pr_providerId :: string
  pr_requestId :: string
  pr_sessionId :: string
  pr_rememberable :: bool

record AgentData =
  eventId :: string
  content :: "string option"
  reasoning_content :: "string option"
  tool_call :: "string option"
  tool_call_id :: "string option"
  tool_call_name :: "string option"
  tool_call_params :: "string option"
  tool_call_server_name :: "string option"
  tool_call_response :: "string option"
  permission_request :: "PermissionRequest option"
  totalUsage :: "TotalUsage option"
  image_data :: "string option"
  rate_limit :: "string option"

definition response_data :: "string \<Rightarrow> AgentData" where
  "response_data eid =
     \<lparr>eventId = eid, content = None, reasoning_content = None, tool_call = None,
      tool_call_id = None, tool_call_name = None, tool_call_params = None,
      tool_call_server_name = None, tool_call_response = None, permission_request = None,
      totalUsage = None, image_data = None, rate_limit = None\<rparr>"

text \<open>
  \<open>LLMAgentEvent\<close>: \<open>response\<close> with its data, \<open>end\<close> with \<open>eventId\<close> and \<open>userStop\<close>,
  \<open>error\<close> with \<open>eventId\<close> and the message.
\<close>

datatype LLMAgentEvent = Response AgentData | End string bool | Error string string

text \<open>
  How an asynchronous iteration (and the loop over it) completes: normally, or by a
  throw (of an \<open>Error\<close> with its message, or of another value). A stream is the list of
  the events it delivers and how it completes after the last of them.
\<close>

datatype Completion = Normal | Throws "string option"

definition error_message :: "string option \<Rightarrow> string" where
  "error_message e = (case e of Some m \<Rightarrow> m | None \<Rightarrow> ''Unknown error'')"

text \<open>
  What a handler does with the response object \<open>res\<close>: a JSON response with a status (the
  object given to \<open>JSON.stringify\<close>), an error envelope with a status, or an event stream
  (status 200, \<open>text/event-stream\<close>) with the strings written to it, in order, before
  \<open>res.end()\<close>.
\<close>

datatype 'a HttpResult = Respond nat 'a | RespondError nat json | EventStream "string list"

definition sendError :: "nat \<Rightarrow> string \<Rightarrow> string \<Rightarrow> 'a HttpResult" where
  "sendError status type message =
     RespondError status
       (JObj [(''type'', JStr ''error''),
              (''error'', JObj [(''type'', JStr type), (''message'', JStr message)])])"

definition sendOpenAIError :: "nat \<Rightarrow> string \<Rightarrow> string \<Rightarrow> 'a HttpResult" where
  "sendOpenAIError status type message =
     RespondError status
       (JObj [(''error'', JObj [(''message'', JStr message),
                                (''type'', JStr type),
                                (''param'', JNull),
                                (''code'', JNull)])])"

subsection \<open>\<open>handleStreamingResponse\<close> (Anthropic, streaming)\<close>

text \<open>
  The local variables of the handler while it consumes the stream, with the strings given
  to \<open>res.write\<close> so far. Each element of the stream comes with what \<open>res.destroyed\<close>
  reads when the loop reaches it.
\<close>

record StreamingLoop =
  s_builder :: StreamingResponseBuilder
  s_inputTokens :: nat
  s_outputTokens :: nat
  s_written :: "string list"

definition s_write :: "string \<Rightarrow> StreamingLoop \<Rightarrow> StreamingLoop" where
  "s_write out s = s\<lparr>s_written := s_written s @ [out]\<rparr>"

definition s_response :: "StreamingLoop \<Rightarrow> AgentData \<Rightarrow> StreamingLoop" where
  "s_response s0 d =
     (let s1 = (if truthy (content d)
                then s_write (handleTextDelta (s_builder s0) (text_of (content d))) s0
                else s0);
          s2 = (if truthy (reasoning_content d)
                then s_write (handleTextDelta (s_builder s1) (text_of (reasoning_content d))) s1
                else s1);
          s3 = (if tool_call d = Some ''start'' \<and> truthy (tool_call_id d) \<and> truthy (tool_call_name d)
                then (case handleToolCallStart (s_builder s2) (text_of (tool_call_id d))
                             (text_of (tool_call_name d)) of
                        (out, b) \<Rightarrow> s_write out (s2\<lparr>s_builder := b\<rparr>))
                else s2);
          s4 = (if tool_call d = Some ''update'' \<and> truthy (tool_call_id d)
                     \<and> truthy (tool_call_params d)
                then (case handleToolCallChunk (s_builder s3) (text_of (tool_call_id d))
                             (text_of (tool_call_params d)) of
                        (chunkOutput, b) \<Rightarrow>
                          (if chunkOutput \<noteq> [] then s_write chunkOutput (s3\<lparr>s_builder := b\<rparr>)
                           else s3\<lparr>s_builder := b\<rparr>))
                else s3)
      in (case totalUsage d of
            Some u \<Rightarrow> s4\<lparr>s_inputTokens := prompt_tokens u, s_outputTokens := completion_tokens u\<rparr>
          | None \<Rightarrow> s4))"

fun s_event :: "StreamingLoop \<Rightarrow> LLMAgentEvent \<Rightarrow> StreamingLoop" where
  "s_event s (Response d) = s_response s d"
| "s_event s (End eid userStop) =
     s\<lparr>s_builder := setStopReason (s_builder s) (if userStop then ''stop_sequence'' else ''end_turn'')\<rparr>"
| "s_event s (Error eid e) = s_write (getErrorEvent (s_builder s) ''api_error'' e) s"

fun s_loop ::
  "StreamingLoop \<Rightarrow> (bool \<times> LLMAgentEvent) list \<Rightarrow> Completion \<Rightarrow> StreamingLoop \<times> Completion" where
  "s_loop s [] ending = (s, ending)"
| "s_loop s ((destroyed, ev) # rest) ending =
     (if destroyed then (s, Normal) else s_loop (s_event s ev) rest ending)"

definition handleStreamingResponse ::
  "string \<Rightarrow> string \<Rightarrow> (bool \<times> LLMAgentEvent) list \<Rightarrow> Completion \<Rightarrow> unit HttpResult" where
  "handleStreamingResponse uuid request_model events ending =
     (let builder = new_StreamingResponseBuilder uuid request_model;
          s0 = \<lparr>s_builder = builder, s_inputTokens = 0, s_outputTokens = 0,
                s_written = [getInitialEvents builder]\<rparr>
      in (case s_loop s0 events ending of
            (s, Normal) \<Rightarrow>
              (let b = setUsage (s_builder s) (s_inputTokens s) (s_outputTokens s)
               in EventStream (s_written s @ [getFinalEvents b]))
          | (s, Throws e) \<Rightarrow>
              EventStream (s_written s @ [getErrorEvent (s_builder s) ''api_error'' (error_message e)])))"

subsection \<open>\<open>handleNonStreamingResponse\<close> (Anthropic, one JSON response)\<close>

text \<open>
  The \<open>input\<close> of a tool call: \<open>{}\<close> at its start, then the value \<open>JSON.parse\<close> returns on
  the parameters of the last update (kept as the text it was parsed from), or
  \<open>{ raw: params }\<close> when they do not parse.
\<close>

datatype ToolInput = EmptyObject | ParsedJson string | RawParams string

record ToolUse =
  tu_name :: string
  tu_input :: ToolInput

datatype ContentBlock = TextBlock string | ToolUseBlock string string ToolInput

record ClaudeMessagesResponse =
  r_id :: string
  r_model :: string
  r_content :: "ContentBlock list"
  r_stop_reason :: "ClaudeStopReason option"
  r_usage :: ClaudeUsage

definition buildNonStreamingResponse ::
  "string \<Rightarrow> string \<Rightarrow> ContentBlock list \<Rightarrow> ClaudeStopReason option \<Rightarrow> ClaudeUsage
     \<Rightarrow> ClaudeMessagesResponse" where
  "buildNonStreamingResponse uuid m blocks reason u =
     \<lparr>r_id = ''msg_'' @ take 24 (without_dashes uuid),
      r_model = m,
      r_content = blocks,
      r_stop_reason = reason,
      r_usage = u\<rparr>"

record NonStreamingLoop =
  n_textContent :: string
  n_toolCalls :: "(string \<times> ToolUse) list"
  n_inputTokens :: nat
  n_outputTokens :: nat
  n_stopReason :: string

definition n_response :: "NonStreamingLoop \<Rightarrow> AgentData \<Rightarrow> NonStreamingLoop" where
  "n_response s0 d =
     (let s1 = (if truthy (content d)
                then s0\<lparr>n_textContent := n_textContent s0 @ text_of (content d)\<rparr>
                else s0);
          s2 = (if truthy (reasoning_content d)
                then s1\<lparr>n_textContent := n_textContent s1 @ text_of (reasoning_content d)\<rparr>
                else s1);
          s3 = (if tool_call d = Some ''start'' \<and> truthy (tool_call_id d) \<and> truthy (tool_call_name d)
                then s2\<lparr>n_toolCalls :=
                          map_set (text_of (tool_call_id d))
                            \<lparr>tu_name = text_of (tool_call_name d), tu_input = EmptyObject\<rparr>
                            (n_toolCalls s2)\<rparr>
                else s2);
          s4 = (if tool_call d = Some ''update'' \<and> truthy (tool_call_id d)
                     \<and> truthy (tool_call_params d)
                then (case map_get (n_toolCalls s3) (text_of (tool_call_id d)) of
                        None \<Rightarrow> s3
                      | Some toolCall \<Rightarrow>
                          s3\<lparr>n_toolCalls :=
                               map_set (text_of (tool_call_id d))
                                 (toolCall\<lparr>tu_input :=
                                    (if JSON_parses (text_of (tool_call_params d))
                                     then ParsedJson (text_of (tool_call_params d))
                                     else RawParams (text_of (tool_call_params d)))\<rparr>)
                                 (n_toolCalls s3)\<rparr>)
                else s3)
      in (case totalUsage d of
            Some u \<Rightarrow> s4\<lparr>n_inputTokens := prompt_tokens u, n_outputTokens := completion_tokens u\<rparr>
          | None \<Rightarrow> s4))"

text \<open>An event either updates the variables or throws (\<open>Inl\<close>, with what is thrown).\<close>

fun n_event :: "NonStreamingLoop \<Rightarrow> LLMAgentEvent \<Rightarrow> string option + NonStreamingLoop" where
  "n_event s (Response d) = Inr (n_response s d)"
| "n_event s (End eid userStop) =
     Inr (s\<lparr>n_stopReason := (if userStop then ''stop_sequence'' else ''end_turn'')\<rparr>)"
| "n_event s (Error eid e) = Inl (Some e)"

fun n_loop :: "NonStreamingLoop \<Rightarrow> LLMAgentEvent list \<Rightarrow> Completion \<Rightarrow> string option + NonStreamingLoop" where
  "n_loop s [] Normal = Inr s"
| "n_loop s [] (Throws e) = Inl e"
| "n_loop s (ev # rest) ending =
     (case n_event s ev of
        Inl e \<Rightarrow> Inl e
      | Inr s' \<Rightarrow> n_loop s' rest ending)"

fun push_tool_blocks :: "ContentBlock list \<Rightarrow> (string \<times> ToolUse) list \<Rightarrow> ContentBlock list" where
  "push_tool_blocks blocks [] = blocks"
| "push_tool_blocks blocks (entry # entries) =
     push_tool_blocks
       (blocks @ [ToolUseBlock (fst entry) (tu_name (snd entry)) (tu_input (snd entry))]) entries"

definition build_content :: "NonStreamingLoop \<Rightarrow> ContentBlock list" where
  "build_content s =
     (let contentBlocks = [];
          contentBlocks = (if n_textContent s \<noteq> [] then contentBlocks @ [TextBlock (n_textContent s)]
                           else contentBlocks);
          contentBlocks = push_tool_blocks contentBlocks (n_toolCalls s);
          contentBlocks = (if length contentBlocks = 0 then contentBlocks @ [TextBlock []]
                           else contentBlocks)
      in contentBlocks)"

definition handleNonStreamingResponse ::
  "string \<Rightarrow> string \<Rightarrow> LLMAgentEvent list \<Rightarrow> Completion \<Rightarrow> ClaudeMessagesResponse HttpResult" where
  "handleNonStreamingResponse uuid request_model events ending =
     (let s0 = \<lparr>n_textContent = [], n_toolCalls = [], n_inputTokens = 0, n_outputTokens = 0,
                n_stopReason = ''complete''\<rparr>
      in (case n_loop s0 events ending of
            Inr s \<Rightarrow>
              Respond 200
                (buildNonStreamingResponse uuid request_model (build_content s)
                   (if length (n_toolCalls s) > 0 then Some Tool_use
                    else mapStopReason (Some (n_stopReason s)))
                   \<lparr>input_tokens = n_inputTokens s, output_tokens = n_outputTokens s\<rparr>)
          | Inl e \<Rightarrow> sendError 500 ''api_error'' (error_message e)))"

subsection \<open>\<open>handleOpenAIStreamingResponse\<close>\<close>

record OpenAIStreamingLoop =
  os_builder :: OpenAIStreamingBuilder
  os_inputTokens :: nat
  os_outputTokens :: nat
  os_stopReason :: "string option"
  os_written :: "string list"

definition os_write :: "string \<Rightarrow> OpenAIStreamingLoop \<Rightarrow> OpenAIStreamingLoop" where
  "os_write out s = s\<lparr>os_written := os_written s @ [out]\<rparr>"

definition os_response :: "OpenAIStreamingLoop \<Rightarrow> AgentData \<Rightarrow> OpenAIStreamingLoop" where
  "os_response s0 d =
     (let s1 = (if truthy (content d)
                then os_write (buildContentChunk (os_builder s0) (text_of (content d))) s0
                else s0);
          s2 = (if truthy (reasoning_content d)
                then os_write (buildContentChunk (os_builder s1) (text_of (reasoning_content d))) s1
                else s1);
          s3 = (if tool_call d = Some ''start'' \<and> truthy (tool_call_id d) \<and> truthy (tool_call_name d)
                then (case buildToolCallStartChunk (os_builder s2) (text_of (tool_call_id d))
                             (text_of (tool_call_name d)) of
                        (out, b) \<Rightarrow> os_write out (s2\<lparr>os_builder := b\<rparr>))
                else s2);
          s4 = (if tool_call d = Some ''update'' \<and> truthy (tool_call_id d)
                     \<and> truthy (tool_call_params d)
                then (case buildToolCallArgsChunk (os_builder s3) (text_of (tool_call_id d))
                             (text_of (tool_call_params d)) of
                        (out, b) \<Rightarrow> os_write out (s3\<lparr>os_builder := b\<rparr>))
                else s3)
      in (case totalUsage d of
            Some u \<Rightarrow> s4\<lparr>os_inputTokens := prompt_tokens u, os_outputTokens := completion_tokens u\<rparr>
          | None \<Rightarrow> s4))"

text \<open>An \<open>error\<close> event is only logged (\<open>console.error\<close>): nothing is written for it.\<close>

fun os_event :: "OpenAIStreamingLoop \<Rightarrow> LLMAgentEvent \<Rightarrow> OpenAIStreamingLoop" where
  "os_event s (Response d) = os_response s d"
| "os_event s (End eid userStop) =
     s\<lparr>os_stopReason := Some (if userStop then ''stop'' else ''stop'')\<rparr>"
| "os_event s (Error eid e) = s"

fun os_loop ::
  "OpenAIStreamingLoop \<Rightarrow> (bool \<times> LLMAgentEvent) list \<Rightarrow> Completion
     \<Rightarrow> OpenAIStreamingLoop \<times> Completion" where
  "os_loop s [] ending = (s, ending)"
| "os_loop s ((destroyed, ev) # rest) ending =
     (if destroyed then (s, Normal) else os_loop (os_event s ev) rest ending)"

definition handleOpenAIStreamingResponse ::
  "string \<Rightarrow> nat \<Rightarrow> string \<Rightarrow> (bool \<times> LLMAgentEvent) list \<Rightarrow> Completion \<Rightarrow> unit HttpResult" where
  "handleOpenAIStreamingResponse uuid now request_model events ending =
     (let builder = new_OpenAIStreamingBuilder uuid now request_model;
          s0 = \<lparr>os_builder = builder, os_inputTokens = 0, os_outputTokens = 0,
                os_stopReason = None, os_written = [buildInitialChunk builder]\<rparr>
      in (case os_loop s0 events ending of
            (s, Normal) \<Rightarrow>
              (let b = oa_setUsage (os_builder s) (os_inputTokens s) (os_outputTokens s);
                   finishReason = mapToOpenAIFinishReason (os_stopReason s) (hasToolCalls b)
               in EventStream (os_written s @ [buildFinalChunk b finishReason, buildDone b]))
          | (s, Throws e) \<Rightarrow> EventStream (os_written s @ [buildDone (os_builder s)])))"

subsection \<open>\<open>handleOpenAINonStreamingResponse\<close>\<close>

text \<open>An \<open>OpenAIToolCall\<close>: its \<open>id\<close>, \<open>function.name\<close> and \<open>function.arguments\<close>.\<close>

datatype OpenAIToolCall = FunctionCall string string string

record ToolCallArgs =
  ta_name :: string
  ta_args :: string

record OpenAIChatCompletionsResponse =
  c_id :: string
  c_created :: nat
  c_model :: string
  c_content :: "string option"
  c_tool_calls :: "OpenAIToolCall list option"
  c_finish_reason :: "FinishReason option"
  c_prompt_tokens :: nat
  c_completion_tokens :: nat
  c_total_tokens :: nat

definition buildOpenAIResponse ::
  "string \<Rightarrow> nat \<Rightarrow> string \<Rightarrow> string option \<Rightarrow> OpenAIToolCall list option \<Rightarrow> FinishReason option
     \<Rightarrow> nat \<Rightarrow> nat \<Rightarrow> OpenAIChatCompletionsResponse" where
  "buildOpenAIResponse uuid now m text calls finishReason promptTokens completionTokens =
     \<lparr>c_id = ''chatcmpl-'' @ without_dashes uuid,
      c_created = now,
      c_model = m,
      c_content = text,
      c_tool_calls = calls,
      c_finish_reason = finishReason,
      c_prompt_tokens = promptTokens,
      c_completion_tokens = completionTokens,
      c_total_tokens = promptTokens + completionTokens\<rparr>"

record OpenAINonStreamingLoop =
  on_textContent :: string
  on_toolCalls :: "OpenAIToolCall list"
  on_toolCallBuffers :: "(string \<times> ToolCallArgs) list"
  on_inputTokens :: nat
  on_outputTokens :: nat
  on_stopReason :: "string option"

definition on_response :: "OpenAINonStreamingLoop \<Rightarrow> AgentData \<Rightarrow> OpenAINonStreamingLoop" where
  "on_response s0 d =
     (let s1 = (if truthy (content d)
                then s0\<lparr>on_textContent := on_textContent s0 @ text_of (content d)\<rparr>
                else s0);
          s2 = (if truthy (reasoning_content d)
                then s1\<lparr>on_textContent := on_textContent s1 @ text_of (reasoning_content d)\<rparr>
                else s1);
          s3 = (if tool_call d = Some ''start'' \<and> truthy (tool_call_id d) \<and> truthy (tool_call_name d)
                then s2\<lparr>on_toolCallBuffers :=
                          map_set (text_of (tool_call_id d))
                            \<lparr>ta_name = text_of (tool_call_name d), ta_args = []\<rparr>
                            (on_toolCallBuffers s2)\<rparr>
                else s2);
          s4 = (if tool_call d = Some ''update'' \<and> truthy (tool_call_id d)
                     \<and> truthy (tool_call_params d)
                then (case map_get (on_toolCallBuffers s3) (text_of (tool_call_id d)) of
                        None \<Rightarrow> s3
                      | Some buffer \<Rightarrow>
                          s3\<lparr>on_toolCallBuffers :=
                               map_set (text_of (tool_call_id d))
                                 (buffer\<lparr>ta_args := text_of (tool_call_params d)\<rparr>)
                                 (on_toolCallBuffers s3),
                             on_toolCalls :=
                               on_toolCalls s3
                                 @ [FunctionCall (text_of (tool_call_id d)) (ta_name buffer)
                                      (text_of (tool_call_params d))]\<rparr>)
                else s3)
      in (case totalUsage d of
            Some u \<Rightarrow> s4\<lparr>on_inputTokens := prompt_tokens u, on_outputTokens := completion_tokens u\<rparr>
          | None \<Rightarrow> s4))"

fun on_event ::
  "OpenAINonStreamingLoop \<Rightarrow> LLMAgentEvent \<Rightarrow> string option + OpenAINonStreamingLoop" where
  "on_event s (Response d) = Inr (on_response s d)"
| "on_event s (End eid userStop) =
     Inr (s\<lparr>on_stopReason := Some (if userStop then ''stop'' else ''stop'')\<rparr>)"
| "on_event s (Error eid e) = Inl (Some e)"

fun on_loop ::
  "OpenAINonStreamingLoop \<Rightarrow> LLMAgentEvent list \<Rightarrow> Completion
     \<Rightarrow> string option + OpenAINonStreamingLoop" where
  "on_loop s [] Normal = Inr s"
| "on_loop s [] (Throws e) = Inl e"
| "on_loop s (ev # rest) ending =
     (case on_event s ev of
        Inl e \<Rightarrow> Inl e
      | Inr s' \<Rightarrow> on_loop s' rest ending)"

definition handleOpenAINonStreamingResponse ::
  "string \<Rightarrow> nat \<Rightarrow> string \<Rightarrow> LLMAgentEvent list \<Rightarrow> Completion
     \<Rightarrow> OpenAIChatCompletionsResponse HttpResult" where
  "handleOpenAINonStreamingResponse uuid now request_model events ending =
     (let s0 = \<lparr>on_textContent = [], on_toolCalls = [], on_toolCallBuffers = [],
                on_inputTokens = 0, on_outputTokens = 0, on_stopReason = None\<rparr>
      in (case on_loop s0 events ending of
            Inr s \<Rightarrow>
              (let finishReason =
                     mapToOpenAIFinishReason (on_stopReason s) (length (on_toolCalls s) > 0)
               in Respond 200
                    (buildOpenAIResponse uuid now request_model
                       (if on_textContent s \<noteq> [] then Some (on_textContent s) else None)
                       (if length (on_toolCalls s) > 0 then Some (on_toolCalls s) else None)
                       finishReason (on_inputTokens s) (on_outputTokens s)))
          | Inl e \<Rightarrow> sendOpenAIError 500 ''api_error'' (error_message e)))"

subsection \<open>\<open>handleMessages\<close> and \<open>handleChatCompletions\<close>: validation and routing\<close>

text \<open>
  The body of a request: text that \<open>JSON.parse\<close> rejects, or the object it returns, with
  the fields the handlers read. A field is \<open>None\<close> when the object does not have it;
  \<open>q_model\<close> is declared a string, the other fields are any JSON value. (A body that
  parses to \<open>null\<close> is not covered: reading a field of \<open>null\<close> throws.)
\<close>

record WireRequest =
  q_model :: "string option"
  q_messages :: "json option"
  q_max_tokens :: "json option"
  q_stream :: "json option"

datatype RequestBody = InvalidJson | ParsedBody WireRequest

record ServerConfig =
  defaultProviderId :: "string option"
  defaultModelId :: "string option"

definition field_isArray :: "json option \<Rightarrow> bool" where
  "field_isArray x = (case x of None \<Rightarrow> False | Some v \<Rightarrow> isArray v)"

definition undefined_or :: "string option \<Rightarrow> string" where
  "undefined_or x = (case x of None \<Rightarrow> ''undefined'' | Some s \<Rightarrow> s)"

text \<open>
  A handler either answers at once and returns (\<open>Inl\<close>), or goes on: it converts the
  request (\<open>convertClaudeToInternal\<close>, \<open>convertOpenAIToInternal\<close>) and calls the streaming
  or the non-streaming handler with the mapping found (\<open>Inr\<close>). Only those two open an
  event stream or start a completion. \<open>getProviderById\<close> belongs to the provider presenter:
  here it is the predicate that tells whether the call returns (it throws otherwise).
\<close>

datatype Handoff = ToStreamingHandler MappingResult | ToNonStreamingHandler MappingResult

definition handleMessages ::
  "ServerConfig \<Rightarrow> (string option \<Rightarrow> bool) \<Rightarrow> RequestBody \<Rightarrow> unit HttpResult + Handoff" where
  \<open>handleMessages config getProviderById body =
     (case body of
        InvalidJson \<Rightarrow> Inl (sendError 400 ''invalid_request_error'' ''Invalid JSON body'')
      | ParsedBody request \<Rightarrow>
          (if \<not> truthy (q_model request)
           then Inl (sendError 400 ''invalid_request_error'' ''Missing required field: model'')
           else if \<not> field_truthy (q_messages request) \<or> \<not> field_isArray (q_messages request)
           then Inl (sendError 400 ''invalid_request_error'' ''Missing required field: messages'')
           else if \<not> field_truthy (q_max_tokens request)
           then Inl (sendError 400 ''invalid_request_error'' ''Missing required field: max_tokens'')
           else (let modelMapping =
                  mapClaudeModel (text_of (q_model request)) (defaultProviderId config)
                    (defaultModelId config)
            in if modelMapping = NoMapping
               then Inl (sendError 400 ''invalid_request_error''
                           (''Unable to map model: '' @ text_of (q_model request)
                              @ ''. Use format "providerId/modelId" or configure default provider.''))
               else if \<not> getProviderById (providerId_of modelMapping)
               then Inl (sendError 400 ''invalid_request_error''
                           (''Provider not found: '' @ undefined_or (providerId_of modelMapping)))
               else if field_truthy (q_stream request) then Inr (ToStreamingHandler modelMapping)
               else Inr (ToNonStreamingHandler modelMapping))))\<close>

definition handleChatCompletions ::
  "ServerConfig \<Rightarrow> (string option \<Rightarrow> bool) \<Rightarrow> RequestBody \<Rightarrow> unit HttpResult + Handoff" where
  \<open>handleChatCompletions config getProviderById body =
     (case body of
        InvalidJson \<Rightarrow> Inl (sendOpenAIError 400 ''invalid_request_error'' ''Invalid JSON body'')
      | ParsedBody request \<Rightarrow>
          (if \<not> truthy (q_model request)
           then Inl (sendOpenAIError 400 ''invalid_request_error'' ''Missing required field: model'')
           else if \<not> field_truthy (q_messages request) \<or> \<not> field_isArray (q_messages request)
           then Inl (sendOpenAIError 400 ''invalid_request_error''
                       ''Missing required field: messages'')
           else (let modelMapping =
                  mapClaudeModel (text_of (q_model request)) (defaultProviderId config)
                    (defaultModelId config)
            in if modelMapping = NoMapping
               then Inl (sendOpenAIError 400 ''invalid_request_error''
                           (''Unable to map model: '' @ text_of (q_model request)
                              @ ''. Use format "providerId/modelId" or configure default provider.''))
               else if \<not> getProviderById (providerId_of modelMapping)
               then Inl (sendOpenAIError 400 ''invalid_request_error''
                           (''Provider not found: '' @ undefined_or (providerId_of modelMapping)))
               else if field_truthy (q_stream request) then Inr (ToStreamingHandler modelMapping)
               else Inr (ToNonStreamingHandler modelMapping))))\<close>

section \<open>llmProviderPresenter/index.ts: the session loop of \<open>runSlashCommand\<close>\<close>

text \<open>
  The chunks of the provider's stream (\<open>provider.runSlashCommand\<close>), by their \<open>type\<close>, with
  the fields the loop reads; a chunk of another type matches no case of the \<open>switch\<close>.
\<close>

record Permission =
  p_tool_call_id :: string
  p_tool_call_name :: "string option"
  p_tool_call_params :: "string option"
  p_permissionType :: "string option"
  p_description :: "string option"
  p_server_name :: "string option"
  p_agentName :: "string option"
  p_providerName :: "string option"
  p_providerId :: string
  p_requestId :: string
  p_sessionId :: string
  p_metadata_rememberable :: "bool option"

datatype StreamChunk =
    TextChunk "string option"
  | ReasoningChunk "string option"
  | ToolCallStartChunk "string option" "string option"
  | ToolCallChunkChunk "string option" "string option"
  | ToolCallEndChunk "string option" "string option"
  | PermissionChunk Permission
  | UsageChunk "TotalUsage option"
  | ImageDataChunk "string option"
  | RateLimitChunk "string option"
  | ErrorChunk "string option"
  | StopChunk
  | OtherChunk

text \<open>\<open>a ?? b\<close>: \<open>a\<close> unless it is undefined.\<close>

definition nullish_or :: "string option \<Rightarrow> string \<Rightarrow> string" where
  "nullish_or a b = (case a of None \<Rightarrow> b | Some x \<Rightarrow> x)"

text \<open>
  The variables of the loop. \<open>toolCallChunks\<close> is a plain object, read and written by tool
  call id with \<open>toolCallChunks[id]\<close>, so a read finds the object's own entry and otherwise
  what the prototype chain has under that name: the members every object inherits from
  \<open>Object.prototype\<close> (functions, and under \<open>__proto__\<close> the prototype itself). The
  assignment \<open>toolCallChunks['__proto__'] = entry\<close> adds no entry: it makes the entry the
  object's prototype (\<open>sl_prototype\<close>), after which the names \<open>name\<close> and
  \<open>arguments_chunk\<close> are found as that entry's strings. \<open>arguments_chunk += ...\<close> on a
  built-in object adds the property to it (\<open>sl_builtins\<close>, by the member's name); the
  built-in objects are taken as the runtime creates them, without properties added by
  earlier runs.
\<close>

record SlashLoop =
  sl_totalUsage :: TotalUsage
  sl_toolCallChunks :: "(string \<times> ToolCallArgs) list"
  sl_prototype :: "ToolCallArgs option"
  sl_builtins :: "(string \<times> string) list"

datatype Found =
    OwnEntry ToolCallArgs
  | PrototypeEntry ToolCallArgs
  | BuiltinObject string
  | InheritedString string
  | NotFound

definition from_object_prototype :: "SlashLoop \<Rightarrow> string \<Rightarrow> Found" where
  "from_object_prototype s k =
     (if k \<in> set object_prototype_members then BuiltinObject k
      else if k = ''arguments_chunk''
        then (case map_get (sl_builtins s) ''__proto__'' of
                Some t \<Rightarrow> InheritedString t
              | None \<Rightarrow> NotFound)
      else NotFound)"

definition lookup_chunks :: "SlashLoop \<Rightarrow> string \<Rightarrow> Found" where
  "lookup_chunks s k =
     (case map_get (sl_toolCallChunks s) k of
        Some entry \<Rightarrow> OwnEntry entry
      | None \<Rightarrow>
          (case sl_prototype s of
             None \<Rightarrow> from_object_prototype s k
           | Some entry \<Rightarrow>
               (if k = ''__proto__'' then PrototypeEntry entry
                else if k = ''name'' then InheritedString (ta_name entry)
                else if k = ''arguments_chunk'' then InheritedString (ta_args entry)
                else from_object_prototype s k)))"

text \<open>
  \<open>found.name\<close> and \<open>found.arguments_chunk\<close>: a function has its name (\<open>Object\<close> is the
  \<open>constructor\<close>), \<open>Object.prototype\<close> and a string have none; a built-in object or a
  string has the \<open>arguments_chunk\<close> that was added to it or to \<open>Object.prototype\<close>.
\<close>

fun found_name :: "Found \<Rightarrow> string option" where
  "found_name (OwnEntry entry) = Some (ta_name entry)"
| "found_name (PrototypeEntry entry) = Some (ta_name entry)"
| "found_name (BuiltinObject k) =
     (if k = ''__proto__'' then None else if k = ''constructor'' then Some ''Object'' else Some k)"
| "found_name (InheritedString t) = None"
| "found_name NotFound = None"

fun found_arguments_chunk :: "SlashLoop \<Rightarrow> Found \<Rightarrow> string option" where
  "found_arguments_chunk s (OwnEntry entry) = Some (ta_args entry)"
| "found_arguments_chunk s (PrototypeEntry entry) = Some (ta_args entry)"
| "found_arguments_chunk s (BuiltinObject k) =
     (case map_get (sl_builtins s) k of
        Some t \<Rightarrow> Some t
      | None \<Rightarrow> map_get (sl_builtins s) ''__proto__'')"
| "found_arguments_chunk s (InheritedString t) = map_get (sl_builtins s) ''__proto__''"
| "found_arguments_chunk s NotFound = None"

text \<open>Whether what was found is truthy, and \<open>a + b\<close> on what may be undefined and a string.\<close>

fun found_truthy :: "Found \<Rightarrow> bool" where
  "found_truthy (InheritedString t) = (t \<noteq> [])"
| "found_truthy NotFound = False"
| "found_truthy found = True"

definition plus_string :: "string option \<Rightarrow> string \<Rightarrow> string" where
  "plus_string a b = (case a of None \<Rightarrow> ''undefined'' @ b | Some x \<Rightarrow> x @ b)"

definition permission_event :: "string \<Rightarrow> Permission \<Rightarrow> AgentData" where
  "permission_event eid permission =
     (let ptype = nullish_or (p_permissionType permission) ''read'';
          descr = nullish_or (p_description permission) [];
          tname = nullish_or (p_tool_call_name permission) (p_tool_call_id permission);
          sname = (case p_server_name permission of
                     Some x \<Rightarrow> x
                   | None \<Rightarrow> (case p_agentName permission of
                       Some x \<Rightarrow> x
                     | None \<Rightarrow> nullish_or (p_providerName permission) []))
      in (response_data eid)
           \<lparr>tool_call := Some ''permission-required'',
            tool_call_id := Some (p_tool_call_id permission),
            tool_call_name := Some tname,
            tool_call_params := p_tool_call_params permission,
            tool_call_server_name := Some sname,
            tool_call_response := Some descr,
            permission_request :=
              Some \<lparr>pr_toolName = tname, pr_serverName = sname, pr_permissionType = ptype,
                    pr_description = descr, pr_providerId = p_providerId permission,
                    pr_requestId = p_requestId permission, pr_sessionId = p_sessionId permission,
                    pr_rememberable =
                      (if p_metadata_rememberable permission = Some False then False else True)\<rparr>\<rparr>)"

text \<open>
  What one chunk makes the loop yield, and the loop's variables after it. \<open>delete\<close>
  removes an own entry and nothing else. Every chunk yields at most one event, and never
  an \<open>end\<close> event. Where the read finds a string, \<open>arguments_chunk += ...\<close> on it throws in
  the source (a \<^verbatim>\<open>TypeError\<close>, the loop's code being strict); here such a chunk yields
  nothing, so the run of the source is the run on the chunks up to that one with a
  throwing end.
\<close>

definition map_delete :: "'k \<Rightarrow> ('k \<times> 'v) list \<Rightarrow> ('k \<times> 'v) list" where
  "map_delete k m = filter (\<lambda>p. fst p \<noteq> k) m"

fun on_chunk :: "string \<Rightarrow> SlashLoop \<Rightarrow> StreamChunk \<Rightarrow> LLMAgentEvent list \<times> SlashLoop" where
  "on_chunk eid s (TextChunk c) =
     (if truthy c then ([Response ((response_data eid)\<lparr>content := c\<rparr>)], s) else ([], s))"
| "on_chunk eid s (ReasoningChunk c) =
     (if truthy c then ([Response ((response_data eid)\<lparr>reasoning_content := c\<rparr>)], s) else ([], s))"
| "on_chunk eid s (ToolCallStartChunk tid tname) =
     (if truthy tid \<and> truthy tname
      then ([Response ((response_data eid)
                \<lparr>tool_call := Some ''start'', tool_call_id := tid, tool_call_name := tname,
                 tool_call_params := Some []\<rparr>)],
            (let entry = \<lparr>ta_name = text_of tname, ta_args = []\<rparr>
             in if text_of tid = ''__proto__'' then s\<lparr>sl_prototype := Some entry\<rparr>
                else s\<lparr>sl_toolCallChunks := map_set (text_of tid) entry (sl_toolCallChunks s)\<rparr>))
      else ([], s))"
| "on_chunk eid s (ToolCallChunkChunk tid piece) =
     (if truthy tid \<and> truthy piece
      then (case lookup_chunks s (text_of tid) of
              OwnEntry entry \<Rightarrow>
                (let entry' = entry\<lparr>ta_args := ta_args entry @ text_of piece\<rparr>
                 in ([Response ((response_data eid)
                        \<lparr>tool_call := Some ''update'', tool_call_id := tid,
                         tool_call_name := Some (ta_name entry'),
                         tool_call_params := Some (ta_args entry')\<rparr>)],
                     s\<lparr>sl_toolCallChunks := map_set (text_of tid) entry' (sl_toolCallChunks s)\<rparr>))
            | PrototypeEntry entry \<Rightarrow>
                (let entry' = entry\<lparr>ta_args := ta_args entry @ text_of piece\<rparr>
                 in ([Response ((response_data eid)
                        \<lparr>tool_call := Some ''update'', tool_call_id := tid,
                         tool_call_name := Some (ta_name entry'),
                         tool_call_params := Some (ta_args entry')\<rparr>)],
                     s\<lparr>sl_prototype := Some entry'\<rparr>))
            | BuiltinObject k \<Rightarrow>
                (let chunk' = plus_string (found_arguments_chunk s (BuiltinObject k)) (text_of piece)
                 in ([Response ((response_data eid)
                        \<lparr>tool_call := Some ''update'', tool_call_id := tid,
                         tool_call_name := found_name (BuiltinObject k),
                         tool_call_params := Some chunk'\<rparr>)],
                     s\<lparr>sl_builtins := map_set k chunk' (sl_builtins s)\<rparr>))
            | InheritedString t \<Rightarrow> ([], s)
            | NotFound \<Rightarrow> ([], s))
      else ([], s))"
| "on_chunk eid s (ToolCallEndChunk tid complete) =
     (let found = lookup_chunks s (text_of tid)
      in if truthy tid \<and> found_truthy found
         then ([Response ((response_data eid)
                  \<lparr>tool_call := Some ''update'', tool_call_id := tid,
                   tool_call_name := found_name found,
                   tool_call_params :=
                     (case complete of
                        Some c \<Rightarrow> Some c
                      | None \<Rightarrow> found_arguments_chunk s found)\<rparr>)],
               s\<lparr>sl_toolCallChunks := map_delete (text_of tid) (sl_toolCallChunks s)\<rparr>)
         else ([], s))"
| "on_chunk eid s (PermissionChunk permission) = ([Response (permission_event eid permission)], s)"
| "on_chunk eid s (UsageChunk u) =
     (case u of
        None \<Rightarrow> ([], s)
      | Some x \<Rightarrow>
          (let t = sl_totalUsage s;
               t' = t\<lparr>prompt_tokens := prompt_tokens t + prompt_tokens x,
                      completion_tokens := completion_tokens t + completion_tokens x,
                      total_tokens := total_tokens t + total_tokens x\<rparr>
           in ([Response ((response_data eid)\<lparr>totalUsage := Some t'\<rparr>)], s\<lparr>sl_totalUsage := t'\<rparr>)))"
| "on_chunk eid s (ImageDataChunk x) =
     (if x \<noteq> None then ([Response ((response_data eid)\<lparr>image_data := x\<rparr>)], s) else ([], s))"
| "on_chunk eid s (RateLimitChunk x) =
     (if x \<noteq> None then ([Response ((response_data eid)\<lparr>rate_limit := x\<rparr>)], s) else ([], s))"
| "on_chunk eid s (ErrorChunk msg) =
     ([Error eid (if truthy msg then text_of msg else ''Provider stream error'')], s)"
| "on_chunk eid s StopChunk = ([], s)"
| "on_chunk eid s OtherChunk = ([], s)"

text \<open>
  Cancellation. \<open>stopStream\<close> aborts the session's controller at some moment, or never.
  Time is counted in chunks received: \<open>Some k\<close> says the signal is set from the moment the
  loop has received \<open>k\<close> chunks on, so the check at the head of the iteration for chunk
  number \<open>i\<close> (from 0) reads it set when \<open>k \<le> i\<close>.
\<close>

definition aborted :: "nat option \<Rightarrow> nat \<Rightarrow> bool" where
  "aborted abortAt t = (case abortAt of None \<Rightarrow> False | Some k \<Rightarrow> k \<le> t)"

text \<open>
  The \<open>for await\<close> loop in the \<open>try\<close> block: the events yielded, the time at which the
  loop is left, and how it is left (\<open>break\<close> leaves it normally).
\<close>

fun slash_loop ::
  "string \<Rightarrow> nat option \<Rightarrow> nat \<Rightarrow> SlashLoop \<Rightarrow> StreamChunk list \<Rightarrow> Completion
     \<Rightarrow> LLMAgentEvent list \<times> nat \<times> Completion" where
  "slash_loop eid abortAt i s [] ending = ([], i, ending)"
| "slash_loop eid abortAt i s (chunk # rest) ending =
     (if aborted abortAt i then ([], i, Normal)
      else (case on_chunk eid s chunk of
              (evs, s') \<Rightarrow>
                (case slash_loop eid abortAt (Suc i) s' rest ending of
                   (later, t, c) \<Rightarrow> (evs @ later, t, c))))"

text \<open>
  The registry \<open>activeStreams\<close> is shared, and the generator's consumer sees its events one
  by one: a run is the sequence of what it does to the registry and what it yields, in
  program order, with how the generator completes in the end.
\<close>

record StreamState =
  isGenerating :: bool
  st_providerId :: string
  st_modelId :: string

datatype Effect = SetStream string StreamState | DeleteStream string | Yield LLMAgentEvent

datatype ProviderInstance = AcpProvider | OtherProvider

definition runSlashCommand ::
  "ProviderInstance \<Rightarrow> string \<Rightarrow> string \<Rightarrow> string \<Rightarrow> nat option \<Rightarrow> StreamChunk list \<Rightarrow> Completion
     \<Rightarrow> Effect list \<times> Completion" where
  "runSlashCommand provider pid mid eid abortAt chunks ending =
     (if provider \<noteq> AcpProvider
      then ([], Throws (Some ''Slash commands are only supported for ACP provider''))
      else (let s0 = \<lparr>sl_totalUsage = \<lparr>prompt_tokens = 0, completion_tokens = 0, total_tokens = 0,
                                         context_length = 0\<rparr>,
                      sl_toolCallChunks = [], sl_prototype = None, sl_builtins = []\<rparr>
            in (case slash_loop eid abortAt 0 s0 chunks ending of
                  (evs, t, c) \<Rightarrow>
                    ([SetStream eid \<lparr>isGenerating = True, st_providerId = pid, st_modelId = mid\<rparr>]
                       @ map Yield evs
                       @ [DeleteStream eid, Yield (End eid (aborted abortAt t))],
                     c))))"

text \<open>Reading a run: the registry after it, and the events its consumer receives.\<close>

fun apply_effect :: "(string \<times> StreamState) list \<Rightarrow> Effect \<Rightarrow> (string \<times> StreamState) list" where
  "apply_effect reg (SetStream k v) = map_set k v reg"
| "apply_effect reg (DeleteStream k) = map_delete k reg"
| "apply_effect reg (Yield ev) = reg"

definition registry_after :: "(string \<times> StreamState) list \<Rightarrow> Effect list \<Rightarrow> (string \<times> StreamState) list" where
  "registry_after reg effects = foldl apply_effect reg effects"

fun yielded :: "Effect list \<Rightarrow> LLMAgentEvent list" where
  "yielded [] = []"
| "yielded (Yield ev # rest) = ev # yielded rest"
| "yielded (e # rest) = yielded rest"

fun is_end :: "LLMAgentEvent \<Rightarrow> bool" where
  "is_end (End eid userStop) = True"
| "is_end ev = False"

section \<open>The producing loop behind \<open>startStreamCompletion\<close>\<close>

text \<open>
  Modelled from the spec: the producing loop whose events the four handlers consume. In the
  sources \<open>startStreamCompletion\<close> of the presenter only delegates to
  \<open>agentLoopHandler.startStreamCompletion\<close> (managers/agentLoopHandler.ts), which is not
  among them. The spec says of this loop: a session is created on session start, registered
  under its \<open>eventId\<close>; \<open>response\<close> events are delivered in emission order; the loop
  observes the cancellation token at each event boundary and terminates promptly; at most
  one \<open>error\<close> event may occur and it also terminates the session; on an upstream error
  the session is torn down and the terminal event is still emitted; exactly one \<open>end\<close>
  event terminates a session, with \<open>userStop\<close> true after a cancellation; deregistration
  happens exactly once, on every exit path. What the backend provider delivers is a
  parameter: responses, and possibly a failure. Time is counted as in the session loop
  above, and the deregistration is put before the terminal event, as that loop has it.
\<close>

datatype ProviderOutput = Produces AgentData | Fails string

text \<open>
  Modelled from the spec: the loop of the absent \<open>agentLoopHandler.startStreamCompletion\<close>
  over what the provider delivers, with the events it yields and the time at which it is
  left. It stops at the cancellation and after the error event.
\<close>

fun agent_loop ::
  "string \<Rightarrow> nat option \<Rightarrow> nat \<Rightarrow> ProviderOutput list \<Rightarrow> LLMAgentEvent list \<times> nat" where
  "agent_loop eid abortAt i [] = ([], i)"
| "agent_loop eid abortAt i (Produces d # rest) =
     (if aborted abortAt i then ([], i)
      else (case agent_loop eid abortAt (Suc i) rest of (later, t) \<Rightarrow> (Response d # later, t)))"
| "agent_loop eid abortAt i (Fails e # rest) =
     (if aborted abortAt i then ([], i) else ([Error eid e], Suc i))"

text \<open>
  Modelled from the spec: a run of the absent \<open>agentLoopHandler.startStreamCompletion\<close>, as
  the sequence of its registry operations and yields: the registration of the session,
  the events of the loop, the deregistration, the terminal \<open>end\<close> event.
\<close>

definition startStreamCompletion ::
  "string \<Rightarrow> string \<Rightarrow> string \<Rightarrow> nat option \<Rightarrow> ProviderOutput list \<Rightarrow> Effect list" where
  "startStreamCompletion pid mid eid abortAt outputs =
     (case agent_loop eid abortAt 0 outputs of
        (evs, t) \<Rightarrow>
          [SetStream eid \<lparr>isGenerating = True, st_providerId = pid, st_modelId = mid\<rparr>]
            @ map Yield evs
            @ [DeleteStream eid, Yield (End eid (aborted abortAt t))])"

section \<open>What a stream of events says\<close>

text \<open>
  Read off the events alone, for stating what the handlers make of a stream: the text of
  an event (its content, then its reasoning content), the text of a stream, whether an
  event starts a tool call, and the ids of the tool calls a stream starts, each id once,
  in the order of their first start.
\<close>

fun event_text :: "LLMAgentEvent \<Rightarrow> string" where
  "event_text (Response d) = text_of (content d) @ text_of (reasoning_content d)"
| "event_text ev = []"

definition accumulated_text :: "LLMAgentEvent list \<Rightarrow> string" where
  "accumulated_text events = concat (map event_text events)"

fun started_id :: "LLMAgentEvent \<Rightarrow> string option" where
  "started_id (Response d) =
     (if tool_call d = Some ''start'' \<and> truthy (tool_call_id d) \<and> truthy (tool_call_name d)
      then tool_call_id d else None)"
| "started_id ev = None"

definition add_once :: "'a \<Rightarrow> 'a list \<Rightarrow> 'a list" where
  "add_once x xs = (if x \<in> set xs then xs else xs @ [x])"

fun note_start :: "string list \<Rightarrow> LLMAgentEvent \<Rightarrow> string list" where
  "note_start ids ev = (case started_id ev of None \<Rightarrow> ids | Some i \<Rightarrow> add_once i ids)"

definition started_ids :: "LLMAgentEvent list \<Rightarrow> string list" where
  "started_ids events = foldl note_start [] events"

fun is_error :: "LLMAgentEvent \<Rightarrow> bool" where
  "is_error (Error eid e) = True"
| "is_error ev = False"

fun block_tool_id :: "ContentBlock \<Rightarrow> string option" where
  "block_tool_id (ToolUseBlock i n inp) = Some i"
| "block_tool_id (TextBlock t) = None"

section \<open>Example streams\<close>

text \<open>
  A stream with a text, one tool call (started, then given its arguments) and the end
  event; and an update for a tool call that was never started.
\<close>

definition demo_events :: "LLMAgentEvent list" where
  \<open>demo_events =
     [Response ((response_data ''e1'')\<lparr>content := Some ''Hi''\<rparr>),
      Response ((response_data ''e1'')\<lparr>tool_call := Some ''start'', tool_call_id := Some ''t1'',
                                          tool_call_name := Some ''get''\<rparr>),
      Response ((response_data ''e1'')\<lparr>tool_call := Some ''update'', tool_call_id := Some ''t1'',
                                          tool_call_params := Some ''{"a":1}''\<rparr>),
      End ''e1'' False]\<close>

definition stray_update :: AgentData where
  \<open>stray_update =
     (response_data ''e1'')\<lparr>tool_call := Some ''update'', tool_call_id := Some ''ghost'',
                             tool_call_params := Some ''{"a":1}''\<rparr>\<close>

text \<open>
  A provider stream for the session loop: a text chunk, an error chunk without a message,
  another text chunk.
\<close>

definition demo_chunks :: "StreamChunk list" where
  "demo_chunks = [TextChunk (Some ''hi''), ErrorChunk None, TextChunk (Some ''late'')]"

text \<open>
  A stream that starts a tool call and ends without any update of its arguments; a
  provider registry in which every provider id is known.
\<close>

definition start_only_events :: "LLMAgentEvent list" where
  "start_only_events =
     [Response ((response_data ''e1'')\<lparr>tool_call := Some ''start'', tool_call_id := Some ''t1'',
                                          tool_call_name := Some ''get''\<rparr>),
      End ''e1'' False]"

definition any_provider :: "string option \<Rightarrow> bool" where
  "any_provider p = True"

definition empty_messages_request :: WireRequest where
  "empty_messages_request =
     \<lparr>q_model = Some ''anthropic/claude-3-opus'', q_messages = Some (JArr []),
      q_max_tokens = Some (JNum 1024), q_stream = Some (JBool True)\<rparr>"

definition no_defaults :: ServerConfig where
  "no_defaults = \<lparr>defaultProviderId = None, defaultModelId = None\<rparr>"

text \<open>What a backend provider delivers when it fails after one response.\<close>

definition failing_outputs :: "ProviderOutput list" where
  "failing_outputs = [Produces ((response_data ''e1'')\<lparr>content := Some ''Hi''\<rparr>), Fails ''boom'']"

section \<open>Verified properties\<close>

subsection \<open>The insertion-ordered map and the frames\<close>

lemma map_get_map_set_same: "map_get (map_set k v m) k = Some v"
  by (induction m) (auto simp: map_get_def)

lemma map_get_map_set_other: "k' \<noteq> k \<Longrightarrow> map_get (map_set k v m) k' = map_get m k'"
  by (induction m) (auto simp: map_get_def)

lemma map_set_overwrite: "map_set k v' (map_set k v m) = map_set k v' m"
  by (induction m) auto

lemma keys_map_set:
  "map fst (map_set k v m) = (if k \<in> set (map fst m) then map fst m else map fst m @ [k])"
  by (induction m) auto

lemma map_get_Some_key: "map_get m k = Some v \<Longrightarrow> k \<in> set (map fst m)"
  by (auto simp: map_get_def dest: map_of_SomeD intro: rev_image_eqI)

lemma map_get_None_key: "map_get m k = None \<longleftrightarrow> k \<notin> set (map fst m)"
  by (simp add: map_get_def map_of_eq_None_iff)

lemma text_of_not_truthy: "\<not> truthy x \<Longrightarrow> text_of x = []"
  by (cases x) (auto simp: truthy_def text_of_def)

lemma formatSSE_nonempty: "formatSSE ev \<noteq> []"
  by (simp add: formatSSE_def)

lemma formatOpenAISSE_nonempty: "formatOpenAISSE chunk \<noteq> []"
  by (simp add: formatOpenAISSE_def)

lemma parses_complete_object: \<open>JSON_parses ''{"a":1}''\<close>
  by code_simp

lemma not_parses_open_object: \<open>\<not> JSON_parses ''{"a":''\<close>
  by code_simp

lemma parses_empty_object: "JSON_parses ''{}''"
  by code_simp

subsection \<open>What a frame carries\<close>

text \<open>
  \<open>JSON.stringify\<close> of a string determines the string: the escapes of two characters are
  different and none is the beginning of another. So a frame that contains the quoted form
  of a text carries that text and no other.
\<close>

lemma hex_digits_distinct: "distinct ''0123456789abcdef''"
  by simp

lemma hex_digit_inj: "hex_digit a = hex_digit b \<Longrightarrow> a mod 16 = b mod 16"
  using hex_digits_distinct
  by (simp add: hex_digit_def nth_eq_iff_index_eq del: distinct.simps)

lemma hex_pair_inj:
  assumes "hex_digit (n div 16) = hex_digit (m div 16)" "hex_digit n = hex_digit m"
    and "n < 256" "m < 256"
  shows "n = m"
proof -
  from assms(1) have "(n div 16) mod 16 = (m div 16) mod 16" by (rule hex_digit_inj)
  with assms(3,4) have d: "n div 16 = m div 16" by simp
  from assms(2) have r: "n mod 16 = m mod 16" by (rule hex_digit_inj)
  from d r show ?thesis by (metis div_mult_mod_eq)
qed

lemma escape_char_named:
  "escape_char c = [backslash, k] \<Longrightarrow> escape_char d = [backslash, k] \<Longrightarrow> c = d"
  by (auto simp: escape_char_def backslash_def dquote_def split: if_splits)

lemma escape_char_nonempty: "escape_char c \<noteq> []"
  by (simp add: escape_char_def)

lemma escape_char_shape:
  "(escape_char c = [c] \<and> c \<noteq> backslash)
   \<or> (\<exists>k. escape_char c = [backslash, k] \<and> k \<noteq> CHR ''u'')
   \<or> escape_char c = [backslash, CHR ''u'', CHR ''0'', CHR ''0'',
                         hex_digit (of_char c div 16), hex_digit (of_char c)]"
  by (simp add: escape_char_def backslash_def dquote_def)

lemma escape_char_prefix_free:
  assumes "escape_char c @ xs = escape_char d @ ys"
  shows "c = d"
proof -
  have lt: "(of_char c :: nat) < 256" "(of_char d :: nat) < 256" by simp_all
  let ?u = "\<lambda>c. [backslash, CHR ''u'', CHR ''0'', CHR ''0'',
                         hex_digit (of_char c div 16), hex_digit (of_char c)]"
  consider (pp) "escape_char c = [c]" "c \<noteq> backslash" "escape_char d = [d]" "d \<noteq> backslash"
    | (ps) "escape_char c = [c]" "c \<noteq> backslash" "hd (escape_char d) = backslash"
    | (sp) "escape_char d = [d]" "d \<noteq> backslash" "hd (escape_char c) = backslash"
    | (nn) k l where "escape_char c = [backslash, k]" "escape_char d = [backslash, l]"
    | (nu) k where "escape_char c = [backslash, k]" "k \<noteq> CHR ''u''" "escape_char d = ?u d"
    | (un) k where "escape_char d = [backslash, k]" "k \<noteq> CHR ''u''" "escape_char c = ?u c"
    | (uu) "escape_char c = ?u c" "escape_char d = ?u d"
    using escape_char_shape [of c] escape_char_shape [of d] by fastforce
  then show ?thesis
  proof cases
    case pp
    with assms show ?thesis by simp
  next
    case ps
    with assms escape_char_nonempty [of d] show ?thesis by (cases "escape_char d") auto
  next
    case sp
    with assms escape_char_nonempty [of c] show ?thesis by (cases "escape_char c") auto
  next
    case nn
    with assms have "k = l" by simp
    with nn show ?thesis using escape_char_named by blast
  next
    case nu
    with assms show ?thesis by simp
  next
    case un
    with assms show ?thesis by simp
  next
    case uu
    with assms have "hex_digit (of_char c div 16) = hex_digit (of_char d div 16)"
      "hex_digit (of_char c) = hex_digit (of_char d)" by simp_all
    from hex_pair_inj [OF this lt] show ?thesis by simp
  qed
qed

lemma escaped_inj: "concat (map escape_char s) = concat (map escape_char t) \<Longrightarrow> s = t"
proof (induction s arbitrary: t)
  case Nil
  then show ?case by (cases t) (auto simp: escape_char_nonempty)
next
  case (Cons c s)
  show ?case
  proof (cases t)
    case Nil
    with Cons.prems show ?thesis by (simp add: escape_char_nonempty)
  next
    case (Cons d t')
    with Cons.prems have eq: "escape_char c @ concat (map escape_char s)
        = escape_char d @ concat (map escape_char t')" by simp
    then have cd: "c = d" by (rule escape_char_prefix_free)
    with eq have "concat (map escape_char s) = concat (map escape_char t')" by simp
    with Cons.IH have "s = t'" by blast
    with cd Cons show ?thesis by simp
  qed
qed

lemma quote_json_inj: "quote_json s = quote_json t \<Longrightarrow> s = t"
  by (simp add: quote_json_def escaped_inj)

text \<open>The frames of the encoders, written out as the text that is sent.\<close>

lemma show_nat_int: "show_int (int n) = show_nat n"
  by (simp add: show_int_def)

lemma input_json_delta_frame:
  \<open>formatSSE (buildInputJsonDeltaEvent i buffer) =
     ''event: content_block_delta'' @ [newline]
       @ ''data: {"type":"content_block_delta","index":'' @ show_nat i
       @ '',"delta":{"type":"input_json_delta","partial_json":'' @ quote_json buffer
       @ ''}}'' @ [newline, newline]\<close>
proof -
  have keys: \<open>quote_json ''type'' = ''"type"''\<close> \<open>quote_json ''index'' = ''"index"''\<close>
    \<open>quote_json ''delta'' = ''"delta"''\<close> \<open>quote_json ''partial_json'' = ''"partial_json"''\<close>
    \<open>quote_json ''content_block_delta'' = ''"content_block_delta"''\<close>
    \<open>quote_json ''input_json_delta'' = ''"input_json_delta"''\<close>
    by code_simp+
  show ?thesis
    by (simp add: formatSSE_def buildInputJsonDeltaEvent_def keys show_nat_int)
qed

lemma error_frame:
  \<open>formatSSE (buildErrorEvent ''api_error'' message) =
     ''event: error'' @ [newline]
       @ ''data: {"type":"error","error":{"type":"api_error","message":'' @ quote_json message
       @ ''}}'' @ [newline, newline]\<close>
proof -
  have keys: \<open>quote_json ''type'' = ''"type"''\<close> \<open>quote_json ''error'' = ''"error"''\<close>
    \<open>quote_json ''message'' = ''"message"''\<close> \<open>quote_json ''api_error'' = ''"api_error"''\<close>
    by code_simp+
  show ?thesis
    by (simp add: formatSSE_def buildErrorEvent_def keys)
qed

lemma tool_args_chunk_frame:
  \<open>formatOpenAISSE (JObj (stream_chunk b (tool_args_delta i args) None)) =
     ''data: {"id":'' @ quote_json (oa_id b)
       @ '',"object":"chat.completion.chunk","created":'' @ show_nat (oa_created b)
       @ '',"model":'' @ quote_json (oa_model b)
       @ '',"choices":[{"index":0,"delta":{"tool_calls":[{"index":'' @ show_nat i
       @ '',"function":{"arguments":'' @ quote_json args
       @ ''}}]},"finish_reason":null}]}'' @ [newline, newline]\<close>
proof -
  have keys: \<open>quote_json ''id'' = ''"id"''\<close> \<open>quote_json ''object'' = ''"object"''\<close>
    \<open>quote_json ''created'' = ''"created"''\<close> \<open>quote_json ''model'' = ''"model"''\<close>
    \<open>quote_json ''choices'' = ''"choices"''\<close> \<open>quote_json ''index'' = ''"index"''\<close>
    \<open>quote_json ''delta'' = ''"delta"''\<close> \<open>quote_json ''tool_calls'' = ''"tool_calls"''\<close>
    \<open>quote_json ''function'' = ''"function"''\<close> \<open>quote_json ''arguments'' = ''"arguments"''\<close>
    \<open>quote_json ''finish_reason'' = ''"finish_reason"''\<close>
    \<open>quote_json ''chat.completion.chunk'' = ''"chat.completion.chunk"''\<close>
    by code_simp+
  have zero: "show_int 0 = ''0''" by code_simp
  show ?thesis
    by (simp add: formatOpenAISSE_def stream_chunk_def tool_args_delta_def keys show_nat_int zero)
qed

subsection \<open>Tool-argument deltas of the Anthropic encoder\<close>

lemma handleToolCallChunk_registered:
  assumes "map_get (currentToolCalls b) toolId = Some toolCall"
  shows "handleToolCallChunk b toolId chunk =
           (if JSON_parses (argsBuffer toolCall @ chunk)
            then formatSSE (buildInputJsonDeltaEvent (index toolCall) (argsBuffer toolCall @ chunk))
            else [],
            b\<lparr>currentToolCalls :=
                 map_set toolId (toolCall\<lparr>argsBuffer := argsBuffer toolCall @ chunk\<rparr>)
                   (currentToolCalls b)\<rparr>)"
  using assms by (simp add: handleToolCallChunk_def Let_def)

lemma handleToolCallStart_registers:
  "map_get (currentToolCalls (snd (handleToolCallStart b toolId toolName))) toolId =
     Some \<lparr>index = textBlockIndex b + (toolBlockCounter b + 1), name = toolName,
           argsBuffer = [], started = True\<rparr>"
  by (simp add: handleToolCallStart_def Let_def map_get_map_set_same)

text \<open>
  C1. With the tool call \<open>toolId\<close> registered in the encoder \<open>b\<close>, a call of
  \<open>handleToolCallChunk\<close> stores the old buffer followed by the fragment as the call's new
  buffer. When the new buffer parses as JSON it returns one frame, the text of a
  \<open>content_block_delta\<close> event under the call's index whose delta is an \<open>input_json_delta\<close>
  with the whole new buffer as \<open>partial_json\<close>; when it does not parse it returns the
  empty string; so it returns output exactly when the buffer parses. The frame for a buffer
  is the frame of no other buffer. After \<open>handleToolCallStart\<close> in any encoder, the
  fragment \<open>{"a":\<close> returns the empty string and the fragment \<open>1}\<close> after it returns the
  one frame whose \<open>partial_json\<close> is \<open>{"a":1}\<close>.
\<close>

theorem C1_tool_argument_delta_gating:
  assumes "map_get (currentToolCalls b) toolId = Some toolCall"
  shows \<open>(let buffer = argsBuffer toolCall @ chunk;
              result = handleToolCallChunk b toolId chunk;
              delta = (\<lambda>partial_json.
                 ''event: content_block_delta'' @ [newline]
                   @ ''data: {"type":"content_block_delta","index":'' @ show_nat (index toolCall)
                   @ '',"delta":{"type":"input_json_delta","partial_json":''
                   @ quote_json partial_json @ ''}}'' @ [newline, newline])
          in map_get (currentToolCalls (snd result)) toolId = Some (toolCall\<lparr>argsBuffer := buffer\<rparr>)
             \<and> (JSON_parses buffer \<longrightarrow> fst result = delta buffer)
             \<and> (\<not> JSON_parses buffer \<longrightarrow> fst result = [])
             \<and> (fst result \<noteq> [] \<longleftrightarrow> JSON_parses buffer)
             \<and> (\<forall>other. delta other = delta buffer \<longrightarrow> other = buffer))
        \<and> (let started = snd (handleToolCallStart b0 tid toolName);
                first = handleToolCallChunk started tid ''{"a":'';
                second = handleToolCallChunk (snd first) tid ''1}''
            in fst first = []
               \<and> fst second =
                   ''event: content_block_delta'' @ [newline]
                     @ ''data: {"type":"content_block_delta","index":''
                     @ show_nat (textBlockIndex b0 + (toolBlockCounter b0 + 1))
                     @ '',"delta":{"type":"input_json_delta","partial_json":"{''
                     @ [backslash] @ ''"a'' @ [backslash] @ ''":1}"}}'' @ [newline, newline])\<close>
proof -
  have general: "handleToolCallChunk b toolId chunk =
           (if JSON_parses (argsBuffer toolCall @ chunk)
            then formatSSE (buildInputJsonDeltaEvent (index toolCall) (argsBuffer toolCall @ chunk))
            else [],
            b\<lparr>currentToolCalls :=
                 map_set toolId (toolCall\<lparr>argsBuffer := argsBuffer toolCall @ chunk\<rparr>)
                   (currentToolCalls b)\<rparr>)"
    by (rule handleToolCallChunk_registered [OF assms])
  have part1: \<open>(let buffer = argsBuffer toolCall @ chunk;
              result = handleToolCallChunk b toolId chunk;
              delta = (\<lambda>partial_json.
                 ''event: content_block_delta'' @ [newline]
                   @ ''data: {"type":"content_block_delta","index":'' @ show_nat (index toolCall)
                   @ '',"delta":{"type":"input_json_delta","partial_json":''
                   @ quote_json partial_json @ ''}}'' @ [newline, newline])
          in map_get (currentToolCalls (snd result)) toolId = Some (toolCall\<lparr>argsBuffer := buffer\<rparr>)
             \<and> (JSON_parses buffer \<longrightarrow> fst result = delta buffer)
             \<and> (\<not> JSON_parses buffer \<longrightarrow> fst result = [])
             \<and> (fst result \<noteq> [] \<longleftrightarrow> JSON_parses buffer)
             \<and> (\<forall>other. delta other = delta buffer \<longrightarrow> other = buffer))\<close>
    unfolding Let_def
    by (simp add: general map_get_map_set_same input_json_delta_frame quote_json_inj)
  define started where "started = snd (handleToolCallStart b0 tid toolName)"
  define entry :: AnthropicToolCall where
    "entry = \<lparr>index = textBlockIndex b0 + (toolBlockCounter b0 + 1), name = toolName,
              argsBuffer = [], started = True\<rparr>"
  have reg: "map_get (currentToolCalls started) tid = Some entry"
    by (simp add: started_def entry_def handleToolCallStart_registers)
  have first: \<open>handleToolCallChunk started tid ''{"a":'' =
      ([], started\<lparr>currentToolCalls :=
             map_set tid (entry\<lparr>argsBuffer := ''{"a":''\<rparr>) (currentToolCalls started)\<rparr>)\<close>
    using handleToolCallChunk_registered [OF reg, of \<open>''{"a":''\<close>] not_parses_open_object
    by (simp add: entry_def)
  have reg2: \<open>map_get (currentToolCalls (snd (handleToolCallChunk started tid ''{"a":''))) tid
       = Some (entry\<lparr>argsBuffer := ''{"a":''\<rparr>)\<close>
    by (simp add: first map_get_map_set_same)
  have quoted: \<open>quote_json ''{"a":1}'' = ''"{'' @ [backslash] @ ''"a'' @ [backslash] @ ''":1}"''\<close>
    by code_simp
  have second: \<open>fst (handleToolCallChunk (snd (handleToolCallChunk started tid ''{"a":'')) tid ''1}'')
      = ''event: content_block_delta'' @ [newline]
          @ ''data: {"type":"content_block_delta","index":''
          @ show_nat (textBlockIndex b0 + (toolBlockCounter b0 + 1))
          @ '',"delta":{"type":"input_json_delta","partial_json":"{''
          @ [backslash] @ ''"a'' @ [backslash] @ ''":1}"}}'' @ [newline, newline]\<close>
    using handleToolCallChunk_registered [OF reg2, of \<open>''1}''\<close>] parses_complete_object
    by (simp add: entry_def input_json_delta_frame quoted)
  have part2: \<open>(let started = snd (handleToolCallStart b0 tid toolName);
                first = handleToolCallChunk started tid ''{"a":'';
                second = handleToolCallChunk (snd first) tid ''1}''
            in fst first = []
               \<and> fst second =
                   ''event: content_block_delta'' @ [newline]
                     @ ''data: {"type":"content_block_delta","index":''
                     @ show_nat (textBlockIndex b0 + (toolBlockCounter b0 + 1))
                     @ '',"delta":{"type":"input_json_delta","partial_json":"{''
                     @ [backslash] @ ''"a'' @ [backslash] @ ''":1}"}}'' @ [newline, newline])\<close>
    using first second unfolding Let_def started_def by simp
  from part1 part2 show ?thesis by blast
qed

theorem C1_tool_argument_delta_gating_witness:
  \<open>(let started = snd (handleToolCallStart (new_StreamingResponseBuilder ''u'' ''m'') ''t1'' ''get'');
        first = handleToolCallChunk started ''t1'' ''{"a":'';
        second = handleToolCallChunk (snd first) ''t1'' ''1}''
    in fst first = []
       \<and> fst second =
           ''event: content_block_delta'' @ [newline]
             @ ''data: {"type":"content_block_delta","index":1,''
             @ ''"delta":{"type":"input_json_delta","partial_json":"{''
             @ [backslash] @ ''"a'' @ [backslash] @ ''":1}"}}'' @ [newline, newline]
       \<and> map_get (currentToolCalls (snd second)) ''t1''
           = Some \<lparr>index = 1, name = ''get'', argsBuffer = ''{"a":1}'', started = True\<rparr>)\<close>
proof -
  let ?b0 = "new_StreamingResponseBuilder ''u'' ''m''"
  let ?started = "snd (handleToolCallStart ?b0 ''t1'' ''get'')"
  have reg: "map_get (currentToolCalls ?started) ''t1''
             = Some \<lparr>index = 1, name = ''get'', argsBuffer = [], started = True\<rparr>"
    by (simp add: handleToolCallStart_registers new_StreamingResponseBuilder_def)
  have one: "show_nat (Suc 0) = ''1''" by code_simp
  have idx: "textBlockIndex ?b0 + (toolBlockCounter ?b0 + 1) = Suc 0"
    by (simp add: new_StreamingResponseBuilder_def)
  note first = C1_tool_argument_delta_gating
    [OF reg, of \<open>''{"a":''\<close> ?b0 "''t1''" "''get''"]
  have reg2: \<open>map_get (currentToolCalls (snd (handleToolCallChunk ?started ''t1'' ''{"a":''))) ''t1''
      = Some \<lparr>index = 1, name = ''get'', argsBuffer = ''{"a":'', started = True\<rparr>\<close>
    using first unfolding Let_def by simp
  note second = C1_tool_argument_delta_gating
    [OF reg2, of \<open>''1}''\<close> ?b0 "''t1''" "''get''"]
  from first second show ?thesis
    unfolding Let_def by (simp add: new_StreamingResponseBuilder_def one)
qed

subsection \<open>Tool-argument chunks of the OpenAI encoder\<close>

lemma buildToolCallStartChunk_registers:
  "map_get (oa_currentToolCalls (snd (buildToolCallStartChunk b toolId toolName))) toolId =
     Some \<lparr>index = toolCallIndex b, name = toolName, argsBuffer = []\<rparr>"
  by (simp add: buildToolCallStartChunk_def Let_def map_get_map_set_same)

lemma buildToolCallStartChunk_header:
  "oa_id (snd (buildToolCallStartChunk b toolId toolName)) = oa_id b
   \<and> oa_model (snd (buildToolCallStartChunk b toolId toolName)) = oa_model b
   \<and> oa_created (snd (buildToolCallStartChunk b toolId toolName)) = oa_created b"
  by (simp add: buildToolCallStartChunk_def Let_def)

text \<open>
  C2. With the tool call \<open>toolId\<close> started in the OpenAI encoder \<open>b\<close>, every call of
  \<open>buildToolCallArgsChunk\<close> returns one chunk, the text of a \<open>chat.completion.chunk\<close>
  whose only tool call delta has the call's index and, as \<open>function.arguments\<close>, the
  fragment as it was given; the chunk is never empty, whether or not the fragment is JSON,
  and the encoder is left as it was (nothing is buffered). The chunk for a fragment is the
  chunk of no other fragment. After \<open>buildToolCallStartChunk\<close> in any encoder, two
  fragments in a row return two chunks, the first with the first fragment and the second
  with the second.
\<close>

theorem C2_openai_fragments_forwarded:
  assumes "map_get (oa_currentToolCalls b) toolId = Some toolCall"
  shows \<open>(let chunk = (\<lambda>builder i fragment.
                 ''data: {"id":'' @ quote_json (oa_id builder)
                   @ '',"object":"chat.completion.chunk","created":'' @ show_nat (oa_created builder)
                   @ '',"model":'' @ quote_json (oa_model builder)
                   @ '',"choices":[{"index":0,"delta":{"tool_calls":[{"index":'' @ show_nat i
                   @ '',"function":{"arguments":'' @ quote_json fragment
                   @ ''}}]},"finish_reason":null}]}'' @ [newline, newline])
          in buildToolCallArgsChunk b toolId args = (chunk b (index toolCall) args, b)
             \<and> fst (buildToolCallArgsChunk b toolId args) \<noteq> []
             \<and> (\<forall>other. fst (buildToolCallArgsChunk b toolId other)
                            = fst (buildToolCallArgsChunk b toolId args) \<longrightarrow> other = args)
             \<and> (let started = snd (buildToolCallStartChunk b0 tid toolName);
                     first = buildToolCallArgsChunk started tid fragment1;
                     second = buildToolCallArgsChunk (snd first) tid fragment2
                 in fst first = chunk b0 (toolCallIndex b0) fragment1
                    \<and> fst second = chunk b0 (toolCallIndex b0) fragment2
                    \<and> snd second = started))\<close>
proof -
  have general: "buildToolCallArgsChunk b toolId f =
      (formatOpenAISSE (JObj (stream_chunk b (tool_args_delta (index toolCall) f) None)), b)" for f
    using assms by (simp add: buildToolCallArgsChunk_def)
  define started where "started = snd (buildToolCallStartChunk b0 tid toolName)"
  have reg: "map_get (oa_currentToolCalls started) tid =
      Some \<lparr>index = toolCallIndex b0, name = toolName, argsBuffer = []\<rparr>"
    by (simp add: started_def buildToolCallStartChunk_registers)
  have header: "oa_id started = oa_id b0" "oa_model started = oa_model b0"
    "oa_created started = oa_created b0"
    using buildToolCallStartChunk_header [of b0 tid toolName] by (simp_all add: started_def)
  have call: "buildToolCallArgsChunk started tid f =
      (formatOpenAISSE (JObj (stream_chunk started (tool_args_delta (toolCallIndex b0) f) None)),
       started)" for f
    using reg by (simp add: buildToolCallArgsChunk_def)
  have part1: \<open>buildToolCallArgsChunk b toolId args =
      (''data: {"id":'' @ quote_json (oa_id b)
         @ '',"object":"chat.completion.chunk","created":'' @ show_nat (oa_created b)
         @ '',"model":'' @ quote_json (oa_model b)
         @ '',"choices":[{"index":0,"delta":{"tool_calls":[{"index":'' @ show_nat (index toolCall)
         @ '',"function":{"arguments":'' @ quote_json args
         @ ''}}]},"finish_reason":null}]}'' @ [newline, newline], b)\<close>
    by (simp add: general tool_args_chunk_frame)
  have part2: "fst (buildToolCallArgsChunk b toolId args) \<noteq> []"
    by (simp add: general formatOpenAISSE_nonempty)
  have part3: "\<forall>other. fst (buildToolCallArgsChunk b toolId other)
                  = fst (buildToolCallArgsChunk b toolId args) \<longrightarrow> other = args"
    by (simp add: general tool_args_chunk_frame quote_json_inj)
  have part4: \<open>(let started = snd (buildToolCallStartChunk b0 tid toolName);
                     first = buildToolCallArgsChunk started tid fragment1;
                     second = buildToolCallArgsChunk (snd first) tid fragment2
                 in fst first =
                      ''data: {"id":'' @ quote_json (oa_id b0)
                        @ '',"object":"chat.completion.chunk","created":'' @ show_nat (oa_created b0)
                        @ '',"model":'' @ quote_json (oa_model b0)
                        @ '',"choices":[{"index":0,"delta":{"tool_calls":[{"index":''
                        @ show_nat (toolCallIndex b0)
                        @ '',"function":{"arguments":'' @ quote_json fragment1
                        @ ''}}]},"finish_reason":null}]}'' @ [newline, newline]
                    \<and> fst second =
                      ''data: {"id":'' @ quote_json (oa_id b0)
                        @ '',"object":"chat.completion.chunk","created":'' @ show_nat (oa_created b0)
                        @ '',"model":'' @ quote_json (oa_model b0)
                        @ '',"choices":[{"index":0,"delta":{"tool_calls":[{"index":''
                        @ show_nat (toolCallIndex b0)
                        @ '',"function":{"arguments":'' @ quote_json fragment2
                        @ ''}}]},"finish_reason":null}]}'' @ [newline, newline]
                    \<and> snd second = started)\<close>
    unfolding Let_def started_def [symmetric]
    by (simp add: call tool_args_chunk_frame header)
  from part1 part2 part3 part4 show ?thesis
    unfolding Let_def by blast
qed

theorem C2_openai_fragments_forwarded_witness:
  \<open>(let started = snd (buildToolCallStartChunk (new_OpenAIStreamingBuilder ''u'' 7 ''m'') ''t1'' ''get'');
        first = buildToolCallArgsChunk started ''t1'' ''{"a":'';
        second = buildToolCallArgsChunk (snd first) ''t1'' ''1}''
    in fst first =
         ''data: {"id":"chatcmpl-u","object":"chat.completion.chunk","created":7,"model":"m",''
           @ ''"choices":[{"index":0,"delta":{"tool_calls":[{"index":0,"function":{"arguments":"{''
           @ [backslash] @ ''"a'' @ [backslash] @ ''":"}}]},"finish_reason":null}]}''
           @ [newline, newline]
       \<and> fst second =
         ''data: {"id":"chatcmpl-u","object":"chat.completion.chunk","created":7,"model":"m",''
           @ ''"choices":[{"index":0,"delta":{"tool_calls":[{"index":0,"function":{"arguments":"1}"}}]},''
           @ ''"finish_reason":null}]}'' @ [newline, newline]
       \<and> snd second = started)\<close>
proof -
  let ?b0 = "new_OpenAIStreamingBuilder ''u'' 7 ''m''"
  let ?started = "snd (buildToolCallStartChunk ?b0 ''t1'' ''get'')"
  have reg: "map_get (oa_currentToolCalls ?started) ''t1''
      = Some \<lparr>index = 0, name = ''get'', argsBuffer = []\<rparr>"
    by (simp add: buildToolCallStartChunk_registers new_OpenAIStreamingBuilder_def)
  have texts: \<open>quote_json ''chatcmpl-u'' = ''"chatcmpl-u"''\<close> \<open>quote_json ''m'' = ''"m"''\<close>
    \<open>quote_json ''{"a":'' = ''"{'' @ [backslash] @ ''"a'' @ [backslash] @ ''":"''\<close>
    \<open>quote_json ''1}'' = ''"1}"''\<close> \<open>show_nat 7 = ''7''\<close> \<open>show_nat 0 = ''0''\<close>
    by code_simp+
  from C2_openai_fragments_forwarded [OF reg, of "[]" ?b0 "''t1''" "''get''" \<open>''{"a":''\<close> "''1}''"]
  show ?thesis
    unfolding Let_def by (simp add: new_OpenAIStreamingBuilder_def without_dashes_def texts)
qed

subsection \<open>The stop-reason tables\<close>

text \<open>
  C6. The two stop-reason mappings are functions of their arguments alone, defined on
  every argument. \<open>mapStopReason\<close>: complete, stop, end_turn give end_turn; max_tokens,
  length give max_tokens; tool_use, tool_calls, function_call give tool_use; stop_sequence
  gives stop_sequence; any other non-empty reason gives end_turn; an unset reason gives
  null. \<open>mapToOpenAIFinishReason\<close>: tool_calls whenever there are tool calls; otherwise
  complete, stop, end_turn give stop; max_tokens, length give length; the tool-call
  reasons give tool_calls; any other non-empty reason gives stop; and the result is null
  exactly when the reason is unset and there are no tool calls. Unset is what \<open>!reason\<close>
  tests: \<open>undefined\<close>, or the empty string, which no caller passes; for a reason that is
  undefined or non-empty, null is returned exactly when it is undefined and there are no
  tool calls.
\<close>

theorem C6_stop_reason_mapping:
  "mapStopReason (Some ''complete'') = Some End_turn
   \<and> mapStopReason (Some ''stop'') = Some End_turn
   \<and> mapStopReason (Some ''end_turn'') = Some End_turn
   \<and> mapStopReason (Some ''max_tokens'') = Some Max_tokens
   \<and> mapStopReason (Some ''length'') = Some Max_tokens
   \<and> mapStopReason (Some ''tool_use'') = Some Tool_use
   \<and> mapStopReason (Some ''tool_calls'') = Some Tool_use
   \<and> mapStopReason (Some ''function_call'') = Some Tool_use
   \<and> mapStopReason (Some ''stop_sequence'') = Some Stop_sequence
   \<and> (other \<noteq> [] \<and> other \<notin> set [''complete'', ''stop'', ''end_turn'', ''max_tokens'', ''length'',
                                      ''tool_use'', ''tool_calls'', ''function_call'', ''stop_sequence'']
        \<longrightarrow> mapStopReason (Some other) = Some End_turn)
   \<and> mapStopReason None = None
   \<and> mapToOpenAIFinishReason reason True = Some Tool_calls
   \<and> mapToOpenAIFinishReason (Some ''complete'') False = Some Stop
   \<and> mapToOpenAIFinishReason (Some ''stop'') False = Some Stop
   \<and> mapToOpenAIFinishReason (Some ''end_turn'') False = Some Stop
   \<and> mapToOpenAIFinishReason (Some ''max_tokens'') False = Some Length
   \<and> mapToOpenAIFinishReason (Some ''length'') False = Some Length
   \<and> mapToOpenAIFinishReason (Some ''tool_use'') False = Some Tool_calls
   \<and> mapToOpenAIFinishReason (Some ''tool_calls'') False = Some Tool_calls
   \<and> mapToOpenAIFinishReason (Some ''function_call'') False = Some Tool_calls
   \<and> (other \<noteq> [] \<and> other \<notin> set [''complete'', ''stop'', ''end_turn'', ''max_tokens'', ''length'',
                                      ''tool_use'', ''tool_calls'', ''function_call'']
        \<longrightarrow> mapToOpenAIFinishReason (Some other) False = Some Stop)
   \<and> mapToOpenAIFinishReason None False = None
   \<and> (mapStopReason reason = None \<longleftrightarrow> \<not> truthy reason)
   \<and> (mapToOpenAIFinishReason reason hasCalls = None \<longleftrightarrow> \<not> truthy reason \<and> \<not> hasCalls)
   \<and> (reason \<noteq> Some [] \<longrightarrow>
        (mapToOpenAIFinishReason reason hasCalls = None \<longleftrightarrow> reason = None \<and> \<not> hasCalls))"
  by (cases reason) (simp_all add: mapStopReason_def mapToOpenAIFinishReason_def truthy_def)

theorem C6_stop_reason_mapping_witness:
  "mapStopReason (Some ''content_filter'') = Some End_turn
   \<and> mapToOpenAIFinishReason (Some ''content_filter'') False = Some Stop
   \<and> mapToOpenAIFinishReason (Some ''stop_sequence'') False = Some Stop
   \<and> mapToOpenAIFinishReason None True = Some Tool_calls
   \<and> mapToOpenAIFinishReason None False = None"
  using C6_stop_reason_mapping [of "''content_filter''" None False]
    C6_stop_reason_mapping [of "''stop_sequence''" None True]
  by simp

subsection \<open>The content of a non-streaming Anthropic response\<close>

lemma n_response_text:
  "n_textContent (n_response s d) = n_textContent s @ event_text (Response d)"
  by (auto simp: n_response_def Let_def text_of_not_truthy split: option.splits)

lemma n_response_keys:
  "map fst (n_toolCalls (n_response s d)) = note_start (map fst (n_toolCalls s)) (Response d)"
  by (auto simp: n_response_def Let_def keys_map_set add_once_def truthy_def text_of_def
      dest: map_get_Some_key split: option.splits)

lemma n_loop_invariant:
  "n_loop s events ending = Inr s' \<Longrightarrow>
     n_textContent s' = n_textContent s @ accumulated_text events
     \<and> map fst (n_toolCalls s') = foldl note_start (map fst (n_toolCalls s)) events"
proof (induction events arbitrary: s)
  case Nil
  then show ?case by (cases ending) (auto simp: accumulated_text_def)
next
  case (Cons ev rest)
  show ?case
  proof (cases ev)
    case (Response d)
    with Cons.prems have "n_loop (n_response s d) rest ending = Inr s'" by simp
    from Cons.IH [OF this] show ?thesis
      using Response n_response_text [of s d] n_response_keys [of s d]
      by (simp add: accumulated_text_def)
  next
    case (End eid userStop)
    with Cons.prems have "n_loop (s\<lparr>n_stopReason := (if userStop then ''stop_sequence'' else ''end_turn'')\<rparr>) rest ending = Inr s'"
      by simp
    from Cons.IH [OF this] show ?thesis using End by (simp add: accumulated_text_def)
  next
    case (Error eid e)
    with Cons.prems show ?thesis by simp
  qed
qed

lemma push_tool_blocks_append:
  "push_tool_blocks blocks entries =
     blocks @ map (\<lambda>entry. ToolUseBlock (fst entry) (tu_name (snd entry)) (tu_input (snd entry))) entries"
  by (induction entries arbitrary: blocks) auto

lemma build_content_shape:
  "build_content s =
     (if n_textContent s = [] \<and> n_toolCalls s = [] then [TextBlock []]
      else (if n_textContent s \<noteq> [] then [TextBlock (n_textContent s)] else [])
           @ map (\<lambda>entry. ToolUseBlock (fst entry) (tu_name (snd entry)) (tu_input (snd entry)))
               (n_toolCalls s))"
  by (simp add: build_content_def Let_def push_tool_blocks_append)

lemma n_loop_no_error:
  "list_all (\<lambda>ev. \<not> is_error ev) events \<Longrightarrow> \<exists>s'. n_loop s events Normal = Inr s'"
proof (induction events arbitrary: s)
  case Nil
  then show ?case by simp
next
  case (Cons ev rest)
  then show ?case by (cases ev) auto
qed

lemma tool_block_ids:
  "map block_tool_id
     (map (\<lambda>entry. ToolUseBlock (fst entry) (tu_name (snd entry)) (tu_input (snd entry))) entries)
   = map Some (map fst entries)"
  by (induction entries) auto

text \<open>What the handler answers when the loop ends without a throw.\<close>

lemma handleNonStreamingResponse_content:
  assumes "handleNonStreamingResponse uuid m events ending = Respond 200 resp"
  shows "\<exists>tools. map block_tool_id tools = map Some (started_ids events)
           \<and> r_content resp =
               (if accumulated_text events = [] \<and> started_ids events = [] then [TextBlock []]
                else (if accumulated_text events \<noteq> [] then [TextBlock (accumulated_text events)] else [])
                     @ tools)"
proof -
  let ?s0 = "\<lparr>n_textContent = [], n_toolCalls = [], n_inputTokens = 0, n_outputTokens = 0,
              n_stopReason = ''complete''\<rparr>"
  from assms obtain s where loop: "n_loop ?s0 events ending = Inr s"
    and resp: "r_content resp = build_content s"
    by (auto simp: handleNonStreamingResponse_def Let_def sendError_def
        buildNonStreamingResponse_def split: sum.splits)
  from n_loop_invariant [OF loop]
  have acc: "n_textContent s = accumulated_text events"
    and keys: "map fst (n_toolCalls s) = started_ids events"
    by (simp_all add: started_ids_def)
  let ?tools = "map (\<lambda>entry. ToolUseBlock (fst entry) (tu_name (snd entry)) (tu_input (snd entry)))
                  (n_toolCalls s)"
  have ids: "map block_tool_id ?tools = map Some (started_ids events)"
    by (simp only: tool_block_ids keys)
  have empty: "n_toolCalls s = [] \<longleftrightarrow> started_ids events = []"
    using keys by (metis map_is_Nil_conv)
  have "r_content resp =
      (if accumulated_text events = [] \<and> started_ids events = [] then [TextBlock []]
       else (if accumulated_text events \<noteq> [] then [TextBlock (accumulated_text events)] else [])
            @ ?tools)"
    by (simp add: resp build_content_shape acc empty)
  with ids show ?thesis by blast
qed

lemma handleNonStreamingResponse_answers:
  assumes "list_all (\<lambda>ev. \<not> is_error ev) events"
  shows "\<exists>resp. handleNonStreamingResponse uuid m events Normal = Respond 200 resp"
  using n_loop_no_error [OF assms]
  by (metis (no_types, lifting) handleNonStreamingResponse_def sum.simps(6))

lemma demo_events_text: "accumulated_text demo_events = ''Hi''"
  by (simp add: demo_events_def accumulated_text_def response_data_def text_of_def)

lemma demo_events_ids: "started_ids demo_events = [''t1'']"
  by (simp add: demo_events_def started_ids_def response_data_def truthy_def add_once_def)

lemma demo_events_no_error: "list_all (\<lambda>ev. \<not> is_error ev) demo_events"
  by (simp add: demo_events_def)

text \<open>
  C9. A stream without an error event that ends normally is answered with status 200; and
  whenever \<open>handleNonStreamingResponse\<close> answers 200, the content of the response is not
  empty: if any text or reasoning content was accumulated, the content is one text block
  with the concatenated text followed by exactly one tool_use block for each started tool
  call id, in the order of their first starts; if there was neither text nor a started tool
  call, the content is the single text block with the empty text.
\<close>

theorem C9_non_streaming_content:
  "(list_all (\<lambda>ev. \<not> is_error ev) events \<longrightarrow>
      (\<exists>resp. handleNonStreamingResponse uuid m events Normal = Respond 200 resp))
   \<and> (handleNonStreamingResponse uuid m events ending = Respond 200 resp \<longrightarrow>
        r_content resp \<noteq> []
        \<and> (accumulated_text events \<noteq> [] \<longrightarrow>
             (\<exists>tools. r_content resp = TextBlock (accumulated_text events) # tools
                      \<and> map block_tool_id tools = map Some (started_ids events)))
        \<and> (accumulated_text events = [] \<and> started_ids events = [] \<longrightarrow>
             r_content resp = [TextBlock []]))"
proof (intro conjI impI)
  assume "list_all (\<lambda>ev. \<not> is_error ev) events"
  then show "\<exists>resp. handleNonStreamingResponse uuid m events Normal = Respond 200 resp"
    by (rule handleNonStreamingResponse_answers)
next
  assume a: "handleNonStreamingResponse uuid m events ending = Respond 200 resp"
  from handleNonStreamingResponse_content [OF a] obtain tools where
    ids: "map block_tool_id tools = map Some (started_ids events)" and
    shape: "r_content resp =
               (if accumulated_text events = [] \<and> started_ids events = [] then [TextBlock []]
                else (if accumulated_text events \<noteq> [] then [TextBlock (accumulated_text events)] else [])
                     @ tools)"
    by blast
  show "r_content resp \<noteq> []"
    using ids shape by (auto split: if_splits)
  show "accumulated_text events = [] \<and> started_ids events = [] \<Longrightarrow> r_content resp = [TextBlock []]"
    using shape by simp
  show "accumulated_text events \<noteq> [] \<Longrightarrow>
      \<exists>tools. r_content resp = TextBlock (accumulated_text events) # tools
            \<and> map block_tool_id tools = map Some (started_ids events)"
    using ids shape by simp
qed

theorem C9_non_streaming_content_witness:
  "\<exists>resp. handleNonStreamingResponse ''u'' ''m'' demo_events Normal = Respond 200 resp
          \<and> r_content resp \<noteq> []
          \<and> (\<exists>tools. r_content resp = TextBlock ''Hi'' # tools
                     \<and> map block_tool_id tools = [Some ''t1''])"
proof -
  from handleNonStreamingResponse_answers [OF demo_events_no_error, of "''u''" "''m''"]
  obtain resp where r: "handleNonStreamingResponse ''u'' ''m'' demo_events Normal = Respond 200 resp"
    by blast
  from C9_non_streaming_content [of demo_events "''u''" "''m''" Normal resp] r
  show ?thesis by (simp add: demo_events_text demo_events_ids)
qed

subsection \<open>Updates for a tool call that was never started\<close>

text \<open>
  C10. An update of the arguments of a tool call id that was never started changes nothing:
  \<open>handleToolCallChunk\<close> (Anthropic encoder) and \<open>buildToolCallArgsChunk\<close> (OpenAI encoder)
  return the empty string and leave the encoder as it was; in the non-streaming Anthropic
  handler the event leaves the recorded tool calls as they were, and the response of a
  stream that never starts the id has no tool_use block with that id.
\<close>

theorem C10_unregistered_update_is_noop:
  "(map_get (currentToolCalls b) toolId = None \<longrightarrow> handleToolCallChunk b toolId chunk = ([], b))
   \<and> (map_get (oa_currentToolCalls ob) toolId = None \<longrightarrow>
        buildToolCallArgsChunk ob toolId args = ([], ob))
   \<and> (tool_call d = Some ''update'' \<and> map_get (n_toolCalls s) (text_of (tool_call_id d)) = None \<longrightarrow>
        n_toolCalls (n_response s d) = n_toolCalls s)
   \<and> (toolId \<notin> set (started_ids events)
        \<and> handleNonStreamingResponse uuid m events ending = Respond 200 resp \<longrightarrow>
        Some toolId \<notin> set (map block_tool_id (r_content resp)))"
proof (intro conjI impI)
  assume "map_get (currentToolCalls b) toolId = None"
  then show "handleToolCallChunk b toolId chunk = ([], b)"
    by (simp add: handleToolCallChunk_def)
next
  assume "map_get (oa_currentToolCalls ob) toolId = None"
  then show "buildToolCallArgsChunk ob toolId args = ([], ob)"
    by (simp add: buildToolCallArgsChunk_def)
next
  assume "tool_call d = Some ''update'' \<and> map_get (n_toolCalls s) (text_of (tool_call_id d)) = None"
  then show "n_toolCalls (n_response s d) = n_toolCalls s"
    by (auto simp: n_response_def Let_def split: option.splits)
next
  assume a: "toolId \<notin> set (started_ids events)
        \<and> handleNonStreamingResponse uuid m events ending = Respond 200 resp"
  then obtain tools where
    ids: "map block_tool_id tools = map Some (started_ids events)" and
    shape: "r_content resp =
               (if accumulated_text events = [] \<and> started_ids events = [] then [TextBlock []]
                else (if accumulated_text events \<noteq> [] then [TextBlock (accumulated_text events)] else [])
                     @ tools)"
    using handleNonStreamingResponse_content by blast
  have "Some toolId \<notin> set (map block_tool_id tools)"
    using a ids by auto
  then show "Some toolId \<notin> set (map block_tool_id (r_content resp))"
    using shape by (auto split: if_splits)
qed

theorem C10_unregistered_update_is_noop_witness:
  \<open>handleToolCallChunk (new_StreamingResponseBuilder ''u'' ''m'') ''ghost'' ''{"a":1}''
      = ([], new_StreamingResponseBuilder ''u'' ''m'')
    \<and> buildToolCallArgsChunk (new_OpenAIStreamingBuilder ''u'' 7 ''m'') ''ghost'' ''{"a":1}''
      = ([], new_OpenAIStreamingBuilder ''u'' 7 ''m'')
    \<and> n_toolCalls
        (n_response \<lparr>n_textContent = [], n_toolCalls = [], n_inputTokens = 0, n_outputTokens = 0,
                      n_stopReason = ''complete''\<rparr> stray_update) = []
    \<and> (\<exists>resp. handleNonStreamingResponse ''u'' ''m'' (demo_events @ [Response stray_update]) Normal
                = Respond 200 resp
              \<and> Some ''ghost'' \<notin> set (map block_tool_id (r_content resp)))\<close>
proof -
  let ?evs = "demo_events @ [Response stray_update]"
  have ids: "started_ids ?evs = [''t1'']"
    by (simp add: demo_events_def stray_update_def started_ids_def response_data_def truthy_def
        add_once_def)
  have "list_all (\<lambda>ev. \<not> is_error ev) ?evs"
    by (simp add: demo_events_def)
  from handleNonStreamingResponse_answers [OF this, of "''u''" "''m''"]
  obtain resp where r: "handleNonStreamingResponse ''u'' ''m'' ?evs Normal = Respond 200 resp"
    by blast
  note inst = C10_unregistered_update_is_noop
    [of "new_StreamingResponseBuilder ''u'' ''m''" "''ghost''" \<open>''{"a":1}''\<close>
        "new_OpenAIStreamingBuilder ''u'' 7 ''m''" \<open>''{"a":1}''\<close> stray_update
        "\<lparr>n_textContent = [], n_toolCalls = [], n_inputTokens = 0, n_outputTokens = 0,
          n_stopReason = ''complete''\<rparr>" ?evs "''u''" "''m''" Normal resp]
  have 1: "map_get (currentToolCalls (new_StreamingResponseBuilder ''u'' ''m'')) ''ghost'' = None"
    by (simp add: new_StreamingResponseBuilder_def map_get_def)
  have 2: "map_get (oa_currentToolCalls (new_OpenAIStreamingBuilder ''u'' 7 ''m'')) ''ghost'' = None"
    by (simp add: new_OpenAIStreamingBuilder_def map_get_def)
  have 3: "tool_call stray_update = Some ''update''"
    by (simp add: stray_update_def response_data_def)
  from inst 1 2 3 r ids show ?thesis
    by (auto simp: map_get_def)
qed

subsection \<open>The session loop of \<open>runSlashCommand\<close>\<close>

lemma map_get_map_delete: "map_get (map_delete k m) k = None"
  by (induction m) (auto simp: map_get_def map_delete_def)

lemma on_chunk_no_end: "list_all (\<lambda>ev. \<not> is_end ev) (fst (on_chunk eid s chunk))"
  by (cases chunk) (auto simp: Let_def split: option.splits Found.splits)

lemma slash_loop_no_end:
  "list_all (\<lambda>ev. \<not> is_end ev) (fst (slash_loop eid abortAt i s chunks ending))"
proof (induction chunks arbitrary: i s)
  case Nil
  show ?case by simp
next
  case (Cons chunk rest)
  obtain evs s' where step: "on_chunk eid s chunk = (evs, s')" by (cases "on_chunk eid s chunk")
  obtain later t c where loop: "slash_loop eid abortAt (Suc i) s' rest ending = (later, t, c)"
    by (cases "slash_loop eid abortAt (Suc i) s' rest ending")
  from on_chunk_no_end [of eid s chunk] step have 1: "list_all (\<lambda>ev. \<not> is_end ev) evs" by simp
  from Cons.IH [of "Suc i" s'] loop have 2: "list_all (\<lambda>ev. \<not> is_end ev) later" by simp
  from 1 2 step loop show ?case by simp
qed

lemma aborted_mono: "aborted abortAt t \<Longrightarrow> t \<le> t' \<Longrightarrow> aborted abortAt t'"
  by (cases abortAt) (auto simp: aborted_def)

lemma slash_loop_time:
  "slash_loop eid abortAt i s chunks ending = (evs, t, c) \<Longrightarrow>
     aborted abortAt t = aborted abortAt (i + length chunks)"
proof (induction chunks arbitrary: i s evs t c)
  case Nil
  then show ?case by simp
next
  case (Cons chunk rest)
  show ?case
  proof (cases "aborted abortAt i")
    case True
    with Cons.prems have "t = i" by simp
    with True show ?thesis using aborted_mono [of abortAt i "i + length (chunk # rest)"] by simp
  next
    case False
    obtain evs1 s' where step: "on_chunk eid s chunk = (evs1, s')" by (cases "on_chunk eid s chunk")
    obtain later t' c' where loop: "slash_loop eid abortAt (Suc i) s' rest ending = (later, t', c')"
      by (cases "slash_loop eid abortAt (Suc i) s' rest ending")
    from Cons.prems False step loop have "t' = t" by simp
    with Cons.IH [OF loop] show ?thesis by simp
  qed
qed

lemma registry_after_yields: "foldl apply_effect reg (map Yield evs) = reg"
  by (induction evs) auto

lemma yielded_yields: "yielded (map Yield evs) = evs"
  by (induction evs) auto

lemma yielded_append: "yielded (xs @ ys) = yielded xs @ yielded ys"
  by (induction xs rule: yielded.induct) auto

lemma filter_delete_yields: "filter (\<lambda>e. e = DeleteStream k) (map Yield evs) = []"
  by (induction evs) auto

lemma filter_none: "list_all (\<lambda>x. \<not> P x) xs \<Longrightarrow> filter P xs = []"
  by (induction xs) auto

lemma runSlashCommand_shape:
  assumes "runSlashCommand AcpProvider pid mid eid abortAt chunks ending = (effects, completion)"
  shows "effects =
           SetStream eid \<lparr>isGenerating = True, st_providerId = pid, st_modelId = mid\<rparr>
             # map Yield (fst (slash_loop eid abortAt 0
                    \<lparr>sl_totalUsage = \<lparr>prompt_tokens = 0, completion_tokens = 0, total_tokens = 0,
                                       context_length = 0\<rparr>,
                     sl_toolCallChunks = [], sl_prototype = None, sl_builtins = []\<rparr> chunks ending))
             @ [DeleteStream eid, Yield (End eid (aborted abortAt (length chunks)))]"
proof -
  let ?s0 = "\<lparr>sl_totalUsage = \<lparr>prompt_tokens = 0, completion_tokens = 0, total_tokens = 0,
                                 context_length = 0\<rparr>,
              sl_toolCallChunks = [], sl_prototype = None, sl_builtins = []\<rparr>"
  obtain evs t c where loop: "slash_loop eid abortAt 0 ?s0 chunks ending = (evs, t, c)"
    by (cases "slash_loop eid abortAt 0 ?s0 chunks ending")
  from slash_loop_time [OF loop] have "aborted abortAt t = aborted abortAt (length chunks)"
    by simp
  with assms loop show ?thesis
    by (simp add: runSlashCommand_def Let_def)
qed

text \<open>
  C7. In every run of \<open>runSlashCommand\<close> that enters the session loop (the provider is an
  ACP provider), however the loop is left - the provider's stream is exhausted, the abort
  signal is seen at the head of an iteration, or the stream throws - the run deletes the
  session's \<open>eventId\<close> from the registry exactly once, after which the registry has no
  entry for it; the run yields exactly one \<open>end\<close> event, it is the last event yielded, and
  its \<open>userStop\<close> is true exactly when the abort signal was set by the time the loop was
  left. The whole run is: the registration, the events of the loop (none of them an \<open>end\<close>),
  the deletion, the \<open>end\<close> event. (A consumer that abandons the generator before the
  loop is left is outside this model.)
\<close>

theorem C7_session_loop_cleanup:
  assumes "runSlashCommand AcpProvider pid mid eid abortAt chunks ending = (effects, completion)"
  shows "length (filter (\<lambda>e. e = DeleteStream eid) effects) = 1
         \<and> length (filter is_end (yielded effects)) = 1
         \<and> yielded effects \<noteq> []
         \<and> last (yielded effects) = End eid (aborted abortAt (length chunks))
         \<and> (\<exists>events. list_all (\<lambda>ev. \<not> is_end ev) events
               \<and> effects =
                   SetStream eid \<lparr>isGenerating = True, st_providerId = pid, st_modelId = mid\<rparr>
                     # map Yield events
                     @ [DeleteStream eid, Yield (End eid (aborted abortAt (length chunks)))])
         \<and> map_get (registry_after reg effects) eid = None"
proof -
  let ?s0 = "\<lparr>sl_totalUsage = \<lparr>prompt_tokens = 0, completion_tokens = 0, total_tokens = 0,
                                 context_length = 0\<rparr>,
              sl_toolCallChunks = [], sl_prototype = None, sl_builtins = []\<rparr>"
  let ?evs = "fst (slash_loop eid abortAt 0 ?s0 chunks ending)"
  let ?end = "End eid (aborted abortAt (length chunks))"
  have no_end: "list_all (\<lambda>ev. \<not> is_end ev) ?evs"
    by (rule slash_loop_no_end)
  have eff: "effects =
      SetStream eid \<lparr>isGenerating = True, st_providerId = pid, st_modelId = mid\<rparr>
        # map Yield ?evs @ [DeleteStream eid, Yield ?end]"
    by (rule runSlashCommand_shape [OF assms])
  have y: "yielded effects = ?evs @ [?end]"
    by (simp add: eff yielded_append yielded_yields)
  have 1: "length (filter (\<lambda>e. e = DeleteStream eid) effects) = 1"
    by (simp add: eff filter_delete_yields)
  have 2: "length (filter is_end (yielded effects)) = 1"
    by (simp add: y filter_none [OF no_end])
  have 3: "yielded effects \<noteq> []" "last (yielded effects) = ?end"
    by (simp_all add: y)
  have 5: "map_get (registry_after reg effects) eid = None"
    by (simp add: eff registry_after_def registry_after_yields map_get_map_delete)
  from 1 2 3 5 no_end eff show ?thesis by blast
qed

theorem C7_session_loop_cleanup_witness:
  "(let effects = fst (runSlashCommand AcpProvider ''p'' ''m'' ''e1'' (Some 2) demo_chunks
                         (Throws (Some ''lost'')))
    in yielded effects =
         [Response ((response_data ''e1'')\<lparr>content := Some ''hi''\<rparr>),
          Error ''e1'' ''Provider stream error'',
          End ''e1'' True]
       \<and> length (filter (\<lambda>e. e = DeleteStream ''e1'') effects) = 1
       \<and> length (filter is_end (yielded effects)) = 1
       \<and> map_get (registry_after
                     [(''e0'', \<lparr>isGenerating = True, st_providerId = ''p'', st_modelId = ''m''\<rparr>)]
                     effects) ''e1'' = None)"
proof -
  let ?run = "runSlashCommand AcpProvider ''p'' ''m'' ''e1'' (Some 2) demo_chunks (Throws (Some ''lost''))"
  have run: "?run = (fst ?run, snd ?run)" by simp
  have y: "yielded (fst ?run) =
         [Response ((response_data ''e1'')\<lparr>content := Some ''hi''\<rparr>),
          Error ''e1'' ''Provider stream error'',
          End ''e1'' True]"
    by (simp add: runSlashCommand_def demo_chunks_def aborted_def truthy_def Let_def)
  from C7_session_loop_cleanup [OF run] y show ?thesis
    by (simp add: Let_def)
qed

subsection \<open>Provider errors\<close>

lemma s_loop_append:
  "list_all (\<lambda>p. \<not> fst p) pre \<Longrightarrow>
     s_loop s (pre @ rest) ending = s_loop (fst (s_loop s pre Normal)) rest ending"
  by (induction pre arbitrary: s) auto

lemma s_response_written: "\<exists>ws. s_written (s_response s d) = s_written s @ ws"
  by (auto simp: s_response_def Let_def s_write_def split: option.splits prod.splits)

lemma s_event_written: "\<exists>ws. s_written (s_event s ev) = s_written s @ ws"
  by (cases ev) (auto simp: s_write_def s_response_written)

lemma s_loop_written: "\<exists>ws. s_written (fst (s_loop s events ending)) = s_written s @ ws"
proof (induction events arbitrary: s)
  case Nil
  show ?case by simp
next
  case (Cons p rest)
  obtain destroyed ev where p: "p = (destroyed, ev)" by (cases p)
  show ?case
  proof (cases destroyed)
    case True
    with p show ?thesis by simp
  next
    case False
    from s_event_written [of s ev] obtain ws1 where 1: "s_written (s_event s ev) = s_written s @ ws1"
      by blast
    from Cons.IH [of "s_event s ev"] obtain ws2 where
      2: "s_written (fst (s_loop (s_event s ev) rest ending)) = s_written (s_event s ev) @ ws2"
      by blast
    from p False 1 2 show ?thesis by simp
  qed
qed

lemma s_loop_normal: "snd (s_loop s events Normal) = Normal"
  by (induction events arbitrary: s) auto

lemma anthropic_stream_error_in_band:
  assumes "list_all (\<lambda>p. \<not> fst p) pre"
  shows "\<exists>ws1 ws2. handleStreamingResponse uuid m (pre @ (False, Error eid e) # post) ending
            = EventStream (ws1 @ [formatSSE (buildErrorEvent ''api_error'' e)] @ ws2)
          \<and> ws1 \<noteq> [] \<and> hd ws1 = getInitialEvents (new_StreamingResponseBuilder uuid m)
          \<and> ws2 \<noteq> []
          \<and> (ending = Normal \<longrightarrow> (\<exists>b. last ws2 = getFinalEvents b))"
proof -
  let ?b0 = "new_StreamingResponseBuilder uuid m"
  let ?s0 = "\<lparr>s_builder = ?b0, s_inputTokens = 0, s_outputTokens = 0,
              s_written = [getInitialEvents ?b0]\<rparr>"
  let ?s1 = "fst (s_loop ?s0 pre Normal)"
  let ?s2 = "s_write (getErrorEvent (s_builder ?s1) ''api_error'' e) ?s1"
  let ?err = "formatSSE (buildErrorEvent ''api_error'' e)"
  have split: "s_loop ?s0 (pre @ (False, Error eid e) # post) ending = s_loop ?s2 post ending"
    using s_loop_append [OF assms, of ?s0] by simp
  from s_loop_written [of ?s0 pre Normal] obtain wa where
    wa: "s_written ?s1 = [getInitialEvents ?b0] @ wa" by auto
  from s_loop_written [of ?s2 post ending] obtain wb where
    wb: "s_written (fst (s_loop ?s2 post ending)) = s_written ?s1 @ [?err] @ wb"
    by (auto simp: s_write_def getErrorEvent_def)
  obtain s c where loop: "s_loop ?s2 post ending = (s, c)" by (cases "s_loop ?s2 post ending")
  with wb have w: "s_written s = s_written ?s1 @ [?err] @ wb" by simp
  have norm: "ending = Normal \<Longrightarrow> c = Normal"
    using s_loop_normal [of ?s2 post] loop by simp
  show ?thesis
  proof (cases c)
    case Normal
    let ?fin = "getFinalEvents (setUsage (s_builder s) (s_inputTokens s) (s_outputTokens s))"
    have "handleStreamingResponse uuid m (pre @ (False, Error eid e) # post) ending
        = EventStream (s_written ?s1 @ [?err] @ (wb @ [?fin]))"
      using split loop Normal w by (simp add: handleStreamingResponse_def Let_def)
    moreover have "s_written ?s1 \<noteq> []" "hd (s_written ?s1) = getInitialEvents ?b0"
      using wa by simp_all
    moreover have "wb @ [?fin] \<noteq> []" "\<exists>b. last (wb @ [?fin]) = getFinalEvents b"
      by auto
    ultimately show ?thesis by blast
  next
    case (Throws x)
    let ?fin = "getErrorEvent (s_builder s) ''api_error'' (error_message x)"
    have "handleStreamingResponse uuid m (pre @ (False, Error eid e) # post) ending
        = EventStream (s_written ?s1 @ [?err] @ (wb @ [?fin]))"
      using split loop Throws w by (simp add: handleStreamingResponse_def Let_def)
    moreover have "s_written ?s1 \<noteq> []" "hd (s_written ?s1) = getInitialEvents ?b0"
      using wa by simp_all
    moreover have "wb @ [?fin] \<noteq> []" by simp
    moreover have "ending \<noteq> Normal" using norm Throws by auto
    ultimately show ?thesis by blast
  qed
qed

lemma os_loop_skips_error:
  "os_loop s (pre @ (False, Error eid e) # post) ending = os_loop s (pre @ post) ending"
  by (induction pre arbitrary: s) auto

lemma openai_stream_error_silent:
  "handleOpenAIStreamingResponse uuid now m (pre @ (False, Error eid e) # post) ending
     = handleOpenAIStreamingResponse uuid now m (pre @ post) ending"
  by (simp add: handleOpenAIStreamingResponse_def os_loop_skips_error)

lemma openai_stream_ends_with_done:
  "\<exists>ws. handleOpenAIStreamingResponse uuid now m events ending = EventStream (ws @ [formatOpenAISSEDone])"
proof -
  let ?b0 = "new_OpenAIStreamingBuilder uuid now m"
  let ?s0 = "\<lparr>os_builder = ?b0, os_inputTokens = 0, os_outputTokens = 0,
              os_stopReason = None, os_written = [buildInitialChunk ?b0]\<rparr>"
  obtain s c where loop: "os_loop ?s0 events ending = (s, c)" by (cases "os_loop ?s0 events ending")
  show ?thesis
  proof (cases c)
    case Normal
    with loop show ?thesis
      by (simp add: handleOpenAIStreamingResponse_def Let_def buildDone_def)
  next
    case (Throws x)
    with loop show ?thesis
      by (simp add: handleOpenAIStreamingResponse_def Let_def buildDone_def)
  qed
qed

lemma n_loop_first_error:
  "list_all (\<lambda>ev. \<not> is_error ev) pre \<Longrightarrow> n_loop s (pre @ Error eid e # post) ending = Inl (Some e)"
proof (induction pre arbitrary: s)
  case Nil
  show ?case by simp
next
  case (Cons ev rest)
  then show ?case by (cases ev) auto
qed

lemma on_loop_first_error:
  "list_all (\<lambda>ev. \<not> is_error ev) pre \<Longrightarrow> on_loop s (pre @ Error eid e # post) ending = Inl (Some e)"
proof (induction pre arbitrary: s)
  case Nil
  show ?case by simp
next
  case (Cons ev rest)
  then show ?case by (cases ev) auto
qed

lemma not_aborted_earlier: "\<not> aborted abortAt t' \<Longrightarrow> t \<le> t' \<Longrightarrow> \<not> aborted abortAt t"
  using aborted_mono by blast

lemma slash_loop_reaches_error:
  "\<not> aborted abortAt (i + length chunks) \<Longrightarrow>
     Error eid (if truthy msg then text_of msg else ''Provider stream error'')
       \<in> set (fst (slash_loop eid abortAt i s (chunks @ ErrorChunk msg # later) ending))"
proof (induction chunks arbitrary: i s)
  case Nil
  obtain rest t c where loop: "slash_loop eid abortAt (Suc i) s later ending = (rest, t, c)"
    by (cases "slash_loop eid abortAt (Suc i) s later ending")
  with Nil show ?case by simp
next
  case (Cons chunk chunks)
  from Cons.prems have now: "\<not> aborted abortAt i"
    by (rule not_aborted_earlier) simp
  obtain evs s' where step: "on_chunk eid s chunk = (evs, s')" by (cases "on_chunk eid s chunk")
  obtain rest t c where loop:
    "slash_loop eid abortAt (Suc i) s' (chunks @ ErrorChunk msg # later) ending = (rest, t, c)"
    by (cases "slash_loop eid abortAt (Suc i) s' (chunks @ ErrorChunk msg # later) ending")
  from Cons.prems have "\<not> aborted abortAt (Suc i + length chunks)" by simp
  from Cons.IH [OF this, of s'] loop
  have "Error eid (if truthy msg then text_of msg else ''Provider stream error'') \<in> set rest"
    by simp
  with now step loop show ?case by simp
qed

lemma agent_loop_reaches_failure:
  "\<not> aborted abortAt (i + length ds) \<Longrightarrow>
     agent_loop eid abortAt i (map Produces ds @ Fails e # later)
       = (map Response ds @ [Error eid e], Suc (i + length ds))"
proof (induction ds arbitrary: i)
  case Nil
  then show ?case by simp
next
  case (Cons d ds)
  from Cons.prems have now: "\<not> aborted abortAt i"
    by (rule not_aborted_earlier) simp
  from Cons.prems have "\<not> aborted abortAt (Suc i + length ds)" by simp
  from Cons.IH [OF this] now show ?case by simp
qed

lemma startStreamCompletion_failure:
  assumes "\<not> aborted abortAt (length ds)"
  shows "startStreamCompletion pid mid eid abortAt (map Produces ds @ Fails e # later) =
           SetStream eid \<lparr>isGenerating = True, st_providerId = pid, st_modelId = mid\<rparr>
             # map Yield (map Response ds @ [Error eid e])
             @ [DeleteStream eid, Yield (End eid (aborted abortAt (Suc (length ds))))]"
  using agent_loop_reaches_failure [of abortAt 0 ds eid e later] assms
  by (simp add: startStreamCompletion_def)

lemma startStreamCompletion_teardown:
  assumes "\<not> aborted abortAt (length ds)"
  shows "(let effects = startStreamCompletion pid mid eid abortAt (map Produces ds @ Fails e # later)
          in yielded effects
               = map Response ds @ [Error eid e, End eid (aborted abortAt (Suc (length ds)))]
             \<and> length (filter (\<lambda>x. x = DeleteStream eid) effects) = 1
             \<and> map_get (registry_after reg effects) eid = None)"
proof -
  define evs where "evs = map Response ds @ [Error eid e]"
  let ?effects = "startStreamCompletion pid mid eid abortAt (map Produces ds @ Fails e # later)"
  have eff: "?effects =
      SetStream eid \<lparr>isGenerating = True, st_providerId = pid, st_modelId = mid\<rparr>
        # map Yield evs
        @ [DeleteStream eid, Yield (End eid (aborted abortAt (Suc (length ds))))]"
    unfolding evs_def by (rule startStreamCompletion_failure [OF assms])
  have 1: "yielded ?effects = evs @ [End eid (aborted abortAt (Suc (length ds)))]"
    by (simp add: eff yielded_append yielded_yields)
  have 2: "length (filter (\<lambda>x. x = DeleteStream eid) ?effects) = 1"
    by (simp add: eff filter_delete_yields)
  have 3: "map_get (registry_after reg ?effects) eid = None"
    by (simp add: eff registry_after_def registry_after_yields map_get_map_delete)
  from 1 2 3 show ?thesis by (simp add: Let_def evs_def)
qed

lemma anthropic_stream_error_frame:
  assumes "list_all (\<lambda>p. \<not> fst p) pre"
  shows \<open>\<exists>ws1 ws2. handleStreamingResponse uuid m (pre @ (False, Error eid e) # post) ending
            = EventStream
                (ws1 @ [''event: error'' @ [newline]
                          @ ''data: {"type":"error","error":{"type":"api_error","message":''
                          @ quote_json e @ ''}}'' @ [newline, newline]] @ ws2)
          \<and> ws1 \<noteq> [] \<and> hd ws1 = getInitialEvents (new_StreamingResponseBuilder uuid m)
          \<and> ws2 \<noteq> []
          \<and> (ending = Normal \<longrightarrow> (\<exists>b. last ws2 = getFinalEvents b))\<close>
  using anthropic_stream_error_in_band [OF assms, of uuid m eid e post ending]
  by (simp only: error_frame)

lemma openai_stream_final_chunk:
  \<open>\<exists>ws b r. handleOpenAIStreamingResponse uuid now m events Normal
      = EventStream (ws @ [buildFinalChunk b r, ''data: [DONE]'' @ [newline, newline]])\<close>
proof -
  let ?b0 = "new_OpenAIStreamingBuilder uuid now m"
  let ?s0 = "\<lparr>os_builder = ?b0, os_inputTokens = 0, os_outputTokens = 0,
              os_stopReason = None, os_written = [buildInitialChunk ?b0]\<rparr>"
  have normal: "snd (os_loop s events Normal) = Normal" for s
    by (induction events arbitrary: s) auto
  obtain s c where loop: "os_loop ?s0 events Normal = (s, c)" by (cases "os_loop ?s0 events Normal")
  with normal [of ?s0] have "c = Normal" by simp
  with loop show ?thesis
    by (simp add: handleOpenAIStreamingResponse_def Let_def buildDone_def formatOpenAISSEDone_def)
       blast
qed

lemma openai_stream_done:
  "\<exists>ws. handleOpenAIStreamingResponse uuid now m events ending
          = EventStream (ws @ [''data: [DONE]'' @ [newline, newline]])"
  using openai_stream_ends_with_done [of uuid now m events ending]
  by (simp add: formatOpenAISSEDone_def)

text \<open>
  The one session loop of the sources, \<open>runSlashCommand\<close>, after an error chunk: the error
  event is yielded, and the run still ends with the deletion of the session and the \<open>end\<close>
  event.
\<close>

lemma runSlashCommand_after_error_chunk:
  assumes na: "\<not> aborted abortAt (length chunks)"
  shows "(let effects = fst (runSlashCommand AcpProvider pid mid eid abortAt
                              (chunks @ ErrorChunk msg # later) ending)
          in Yield (Error eid (if truthy msg then text_of msg else ''Provider stream error''))
               \<in> set effects
             \<and> (\<exists>before userStop. effects = before @ [DeleteStream eid, Yield (End eid userStop)]))"
proof -
  let ?run = "runSlashCommand AcpProvider pid mid eid abortAt (chunks @ ErrorChunk msg # later) ending"
  let ?s0 = "\<lparr>sl_totalUsage = \<lparr>prompt_tokens = 0, completion_tokens = 0, total_tokens = 0,
                                 context_length = 0\<rparr>,
              sl_toolCallChunks = [], sl_prototype = None, sl_builtins = []\<rparr>"
  let ?evs = "fst (slash_loop eid abortAt 0 ?s0 (chunks @ ErrorChunk msg # later) ending)"
  let ?err = "Error eid (if truthy msg then text_of msg else ''Provider stream error'')"
  have "?run = (fst ?run, snd ?run)" by simp
  from runSlashCommand_shape [OF this]
  have eff: "fst ?run =
      SetStream eid \<lparr>isGenerating = True, st_providerId = pid, st_modelId = mid\<rparr>
        # map Yield ?evs
        @ [DeleteStream eid,
           Yield (End eid (aborted abortAt (length (chunks @ ErrorChunk msg # later))))]" .
  from na have "?err \<in> set ?evs"
    using slash_loop_reaches_error [of abortAt 0 chunks eid msg ?s0 later ending] by simp
  then have 1: "Yield ?err \<in> set (fst ?run)"
    by (subst eff) simp
  have 2: "\<exists>before userStop. fst ?run = before @ [DeleteStream eid, Yield (End eid userStop)]"
    by (subst eff) (metis append_Cons)
  from 1 2 show ?thesis
    by (simp add: Let_def)
qed

text \<open>
  C8 (as the code has it). Anthropic streaming: an error event that arrives while the
  response is not destroyed is written to the open stream, after the initial events and
  everything written before it, as one \<open>error\<close> frame of type \<open>api_error\<close> with the
  provider's message; the handler goes on consuming the stream, and if the stream does not
  throw, the last thing written is the final events. OpenAI streaming: an error event is
  only logged; what is written is what would have been written without the event; the
  stream still ends with the \<open>[DONE]\<close> frame, and when the provider's stream does not throw,
  the final chunk is written before it. Non-streaming, either variant: the first error
  event is answered with status 500 and an \<open>api_error\<close> envelope in the endpoint's format,
  with the provider's message. In every case the session is torn down and the terminal
  event is still emitted: the producing loop, after the responses and the error event,
  deletes the session from the registry, once, and yields the \<open>end\<close> event last.
\<close>

theorem C8_provider_error_handling:
  \<open>(list_all (\<lambda>p. \<not> fst p) pre \<longrightarrow>
      (\<exists>ws1 ws2. handleStreamingResponse uuid m (pre @ (False, Error eid e) # post) ending
            = EventStream
                (ws1 @ [''event: error'' @ [newline]
                          @ ''data: {"type":"error","error":{"type":"api_error","message":''
                          @ quote_json e @ ''}}'' @ [newline, newline]] @ ws2)
          \<and> ws1 \<noteq> [] \<and> hd ws1 = getInitialEvents (new_StreamingResponseBuilder uuid m)
          \<and> ws2 \<noteq> []
          \<and> (ending = Normal \<longrightarrow> (\<exists>b. last ws2 = getFinalEvents b))))
   \<and> handleOpenAIStreamingResponse uuid now m (pre @ (False, Error eid e) # post) ending
       = handleOpenAIStreamingResponse uuid now m (pre @ post) ending
   \<and> (\<exists>ws. handleOpenAIStreamingResponse uuid now m (pre @ (False, Error eid e) # post) ending
             = EventStream (ws @ [''data: [DONE]'' @ [newline, newline]]))
   \<and> (ending = Normal \<longrightarrow>
        (\<exists>ws b r. handleOpenAIStreamingResponse uuid now m (pre @ (False, Error eid e) # post) ending
             = EventStream (ws @ [buildFinalChunk b r, ''data: [DONE]'' @ [newline, newline]])))
   \<and> (list_all (\<lambda>ev. \<not> is_error ev) events \<longrightarrow>
        handleNonStreamingResponse uuid m (events @ Error eid e # rest) ending
          = RespondError 500
              (JObj [(''type'', JStr ''error''),
                     (''error'', JObj [(''type'', JStr ''api_error''), (''message'', JStr e)])]))
   \<and> (list_all (\<lambda>ev. \<not> is_error ev) events \<longrightarrow>
        handleOpenAINonStreamingResponse uuid now m (events @ Error eid e # rest) ending
          = RespondError 500
              (JObj [(''error'', JObj [(''message'', JStr e), (''type'', JStr ''api_error''),
                                       (''param'', JNull), (''code'', JNull)])]))
   \<and> (\<not> aborted abortAt (length responses) \<longrightarrow>
        (let effects = startStreamCompletion pid mid eid abortAt
                         (map Produces responses @ Fails e # later)
         in yielded effects
              = map Response responses
                  @ [Error eid e, End eid (aborted abortAt (Suc (length responses)))]
            \<and> length (filter (\<lambda>x. x = DeleteStream eid) effects) = 1
            \<and> map_get (registry_after reg effects) eid = None))\<close>
proof (intro conjI impI)
  assume "list_all (\<lambda>p. \<not> fst p) pre"
  then show \<open>\<exists>ws1 ws2. handleStreamingResponse uuid m (pre @ (False, Error eid e) # post) ending
            = EventStream
                (ws1 @ [''event: error'' @ [newline]
                          @ ''data: {"type":"error","error":{"type":"api_error","message":''
                          @ quote_json e @ ''}}'' @ [newline, newline]] @ ws2)
          \<and> ws1 \<noteq> [] \<and> hd ws1 = getInitialEvents (new_StreamingResponseBuilder uuid m)
          \<and> ws2 \<noteq> []
          \<and> (ending = Normal \<longrightarrow> (\<exists>b. last ws2 = getFinalEvents b))\<close>
    by (rule anthropic_stream_error_frame)
next
  show "handleOpenAIStreamingResponse uuid now m (pre @ (False, Error eid e) # post) ending
       = handleOpenAIStreamingResponse uuid now m (pre @ post) ending"
    by (rule openai_stream_error_silent)
next
  show "\<exists>ws. handleOpenAIStreamingResponse uuid now m (pre @ (False, Error eid e) # post) ending
             = EventStream (ws @ [''data: [DONE]'' @ [newline, newline]])"
    by (rule openai_stream_done)
next
  assume "ending = Normal"
  then show "\<exists>ws b r. handleOpenAIStreamingResponse uuid now m (pre @ (False, Error eid e) # post) ending
             = EventStream (ws @ [buildFinalChunk b r, ''data: [DONE]'' @ [newline, newline]])"
    using openai_stream_final_chunk [of uuid now m "pre @ (False, Error eid e) # post"] by simp
next
  assume "list_all (\<lambda>ev. \<not> is_error ev) events"
  then show "handleNonStreamingResponse uuid m (events @ Error eid e # rest) ending
          = RespondError 500
              (JObj [(''type'', JStr ''error''),
                     (''error'', JObj [(''type'', JStr ''api_error''), (''message'', JStr e)])])"
    by (simp add: handleNonStreamingResponse_def n_loop_first_error error_message_def sendError_def)
next
  assume "list_all (\<lambda>ev. \<not> is_error ev) events"
  then show "handleOpenAINonStreamingResponse uuid now m (events @ Error eid e # rest) ending
          = RespondError 500
              (JObj [(''error'', JObj [(''message'', JStr e), (''type'', JStr ''api_error''),
                                       (''param'', JNull), (''code'', JNull)])])"
    by (simp add: handleOpenAINonStreamingResponse_def on_loop_first_error error_message_def
        sendOpenAIError_def)
next
  assume "\<not> aborted abortAt (length responses)"
  then show "let effects = startStreamCompletion pid mid eid abortAt
                         (map Produces responses @ Fails e # later)
         in yielded effects
              = map Response responses
                  @ [Error eid e, End eid (aborted abortAt (Suc (length responses)))]
            \<and> length (filter (\<lambda>x. x = DeleteStream eid) effects) = 1
            \<and> map_get (registry_after reg effects) eid = None"
    by (rule startStreamCompletion_teardown)
qed

text \<open>
  C8 as stated fails for the OpenAI streaming handler: for a stream that consists of one
  error event, the frames written are the role chunk, the final chunk and \<open>[DONE]\<close>, the
  same as for the empty stream; no error is written in-band.
\<close>

theorem C8_openai_stream_counterexample:
  \<open>handleOpenAIStreamingResponse ''u'' 7 ''m'' [(False, Error ''e1'' ''boom'')] Normal
     = EventStream
         [''data: {"id":"chatcmpl-u","object":"chat.completion.chunk","created":7,"model":"m",''
            @ ''"choices":[{"index":0,"delta":{"role":"assistant","content":""},''
            @ ''"finish_reason":null}]}'' @ [newline, newline],
          ''data: {"id":"chatcmpl-u","object":"chat.completion.chunk","created":7,"model":"m",''
            @ ''"choices":[{"index":0,"delta":{},"finish_reason":null}],''
            @ ''"usage":{"prompt_tokens":0,"completion_tokens":0,"total_tokens":0}}''
            @ [newline, newline],
          ''data: [DONE]'' @ [newline, newline]]
   \<and> handleOpenAIStreamingResponse ''u'' 7 ''m'' [(False, Error ''e1'' ''boom'')] Normal
     = handleOpenAIStreamingResponse ''u'' 7 ''m'' [] Normal\<close>
  by code_simp

theorem C8_provider_error_handling_witness:
  \<open>(let effects = startStreamCompletion ''p'' ''m'' ''e1'' None failing_outputs;
        events = yielded effects
    in events = [Response ((response_data ''e1'')\<lparr>content := Some ''Hi''\<rparr>),
                 Error ''e1'' ''boom'', End ''e1'' False]
       \<and> length (filter (\<lambda>x. x = DeleteStream ''e1'') effects) = 1
       \<and> map_get (registry_after
                     [(''e0'', \<lparr>isGenerating = True, st_providerId = ''p'', st_modelId = ''m''\<rparr>)]
                     effects) ''e1'' = None
       \<and> handleStreamingResponse ''u'' ''m'' (map (Pair False) events) Normal
           = EventStream
               [''event: message_start'' @ [newline]
                  @ ''data: {"type":"message_start","message":{"id":"msg_u","type":"message",''
                  @ ''"role":"assistant","model":"m","content":[],"stop_reason":null,''
                  @ ''"stop_sequence":null,"usage":{"input_tokens":0,"output_tokens":0}}}''
                  @ [newline, newline]
                  @ ''event: content_block_start'' @ [newline]
                  @ ''data: {"type":"content_block_start","index":0,''
                  @ ''"content_block":{"type":"text","text":""}}'' @ [newline, newline]
                  @ ''event: ping'' @ [newline] @ ''data: {"type":"ping"}'' @ [newline, newline],
                ''event: content_block_delta'' @ [newline]
                  @ ''data: {"type":"content_block_delta","index":0,''
                  @ ''"delta":{"type":"text_delta","text":"Hi"}}'' @ [newline, newline],
                ''event: error'' @ [newline]
                  @ ''data: {"type":"error","error":{"type":"api_error","message":"boom"}}''
                  @ [newline, newline],
                ''event: content_block_stop'' @ [newline]
                  @ ''data: {"type":"content_block_stop","index":0}'' @ [newline, newline]
                  @ ''event: message_delta'' @ [newline]
                  @ ''data: {"type":"message_delta","delta":{"stop_reason":"end_turn",''
                  @ ''"stop_sequence":null},"usage":{"input_tokens":0,"output_tokens":0}}''
                  @ [newline, newline]
                  @ ''event: message_stop'' @ [newline] @ ''data: {"type":"message_stop"}''
                  @ [newline, newline]]
       \<and> handleOpenAIStreamingResponse ''u'' 7 ''m'' (map (Pair False) events) Normal
           = EventStream
               [''data: {"id":"chatcmpl-u","object":"chat.completion.chunk","created":7,''
                  @ ''"model":"m","choices":[{"index":0,"delta":{"role":"assistant","content":""},''
                  @ ''"finish_reason":null}]}'' @ [newline, newline],
                ''data: {"id":"chatcmpl-u","object":"chat.completion.chunk","created":7,''
                  @ ''"model":"m","choices":[{"index":0,"delta":{"content":"Hi"},''
                  @ ''"finish_reason":null}]}'' @ [newline, newline],
                ''data: {"id":"chatcmpl-u","object":"chat.completion.chunk","created":7,''
                  @ ''"model":"m","choices":[{"index":0,"delta":{},"finish_reason":"stop"}],''
                  @ ''"usage":{"prompt_tokens":0,"completion_tokens":0,"total_tokens":0}}''
                  @ [newline, newline],
                ''data: [DONE]'' @ [newline, newline]]
       \<and> handleNonStreamingResponse ''u'' ''m'' events Normal
           = RespondError 500
               (JObj [(''type'', JStr ''error''),
                      (''error'', JObj [(''type'', JStr ''api_error''),
                                        (''message'', JStr ''boom'')])])
       \<and> handleOpenAINonStreamingResponse ''u'' 7 ''m'' events Normal
           = RespondError 500
               (JObj [(''error'', JObj [(''message'', JStr ''boom''), (''type'', JStr ''api_error''),
                                        (''param'', JNull), (''code'', JNull)])]))\<close>
proof -
  let ?hi = "(response_data ''e1'')\<lparr>content := Some ''Hi''\<rparr>"
  let ?events = "[Response ?hi, Error ''e1'' ''boom'', End ''e1'' False]"
  note inst = C8_provider_error_handling
    [where pre = "[(False, Response ?hi)]" and post = "[(False, End ''e1'' False)]"
       and eid = "''e1''" and e = "''boom''" and uuid = "''u''" and m = "''m''"
       and ending = Normal and now = 7 and events = "[Response ?hi]"
       and rest = "[End ''e1'' False]" and abortAt = None and responses = "[?hi]"
       and later = "[]" and pid = "''p''" and mid = "''m''"
       and reg = "[(''e0'', \<lparr>isGenerating = True, st_providerId = ''p'', st_modelId = ''m''\<rparr>)]"]
  have na: "\<not> aborted None (length [?hi])" by (simp add: aborted_def)
  have ne: "list_all (\<lambda>ev. \<not> is_error ev) [Response ?hi]" by simp
  from inst na have run:
    "yielded (startStreamCompletion ''p'' ''m'' ''e1'' None failing_outputs) = ?events"
    "length (filter (\<lambda>x. x = DeleteStream ''e1'')
               (startStreamCompletion ''p'' ''m'' ''e1'' None failing_outputs)) = 1"
    "map_get (registry_after
                [(''e0'', \<lparr>isGenerating = True, st_providerId = ''p'', st_modelId = ''m''\<rparr>)]
                (startStreamCompletion ''p'' ''m'' ''e1'' None failing_outputs)) ''e1'' = None"
    by (simp_all add: Let_def failing_outputs_def aborted_def)
  from inst ne have errors:
    "handleNonStreamingResponse ''u'' ''m'' ?events Normal
       = RespondError 500
           (JObj [(''type'', JStr ''error''),
                  (''error'', JObj [(''type'', JStr ''api_error''), (''message'', JStr ''boom'')])])"
    "handleOpenAINonStreamingResponse ''u'' 7 ''m'' ?events Normal
       = RespondError 500
           (JObj [(''error'', JObj [(''message'', JStr ''boom''), (''type'', JStr ''api_error''),
                                    (''param'', JNull), (''code'', JNull)])])"
    by simp_all
  have anthropic: \<open>handleStreamingResponse ''u'' ''m'' (map (Pair False) ?events) Normal
           = EventStream
               [''event: message_start'' @ [newline]
                  @ ''data: {"type":"message_start","message":{"id":"msg_u","type":"message",''
                  @ ''"role":"assistant","model":"m","content":[],"stop_reason":null,''
                  @ ''"stop_sequence":null,"usage":{"input_tokens":0,"output_tokens":0}}}''
                  @ [newline, newline]
                  @ ''event: content_block_start'' @ [newline]
                  @ ''data: {"type":"content_block_start","index":0,''
                  @ ''"content_block":{"type":"text","text":""}}'' @ [newline, newline]
                  @ ''event: ping'' @ [newline] @ ''data: {"type":"ping"}'' @ [newline, newline],
                ''event: content_block_delta'' @ [newline]
                  @ ''data: {"type":"content_block_delta","index":0,''
                  @ ''"delta":{"type":"text_delta","text":"Hi"}}'' @ [newline, newline],
                ''event: error'' @ [newline]
                  @ ''data: {"type":"error","error":{"type":"api_error","message":"boom"}}''
                  @ [newline, newline],
                ''event: content_block_stop'' @ [newline]
                  @ ''data: {"type":"content_block_stop","index":0}'' @ [newline, newline]
                  @ ''event: message_delta'' @ [newline]
                  @ ''data: {"type":"message_delta","delta":{"stop_reason":"end_turn",''
                  @ ''"stop_sequence":null},"usage":{"input_tokens":0,"output_tokens":0}}''
                  @ [newline, newline]
                  @ ''event: message_stop'' @ [newline] @ ''data: {"type":"message_stop"}''
                  @ [newline, newline]]\<close>
    by code_simp
  have openai: \<open>handleOpenAIStreamingResponse ''u'' 7 ''m'' (map (Pair False) ?events) Normal
           = EventStream
               [''data: {"id":"chatcmpl-u","object":"chat.completion.chunk","created":7,''
                  @ ''"model":"m","choices":[{"index":0,"delta":{"role":"assistant","content":""},''
                  @ ''"finish_reason":null}]}'' @ [newline, newline],
                ''data: {"id":"chatcmpl-u","object":"chat.completion.chunk","created":7,''
                  @ ''"model":"m","choices":[{"index":0,"delta":{"content":"Hi"},''
                  @ ''"finish_reason":null}]}'' @ [newline, newline],
                ''data: {"id":"chatcmpl-u","object":"chat.completion.chunk","created":7,''
                  @ ''"model":"m","choices":[{"index":0,"delta":{},"finish_reason":"stop"}],''
                  @ ''"usage":{"prompt_tokens":0,"completion_tokens":0,"total_tokens":0}}''
                  @ [newline, newline],
                ''data: [DONE]'' @ [newline, newline]]\<close>
    by code_simp
  show ?thesis
    unfolding Let_def run by (intro conjI refl run anthropic openai errors)
qed

subsection \<open>Validation of the request\<close>

text \<open>
  C4 (as the code has it). For a body that parses: when \<open>model\<close> is absent, \<open>messages\<close> is
  absent or is not an array, or (for \<open>/v1/messages\<close>) \<open>max_tokens\<close> is absent, the handler
  answers at once with status 400 and an \<open>invalid_request_error\<close> envelope in the
  endpoint's format, and returns: no event stream is opened and no completion is started.
  The same holds when \<open>model\<close> is the empty string, \<open>messages\<close> is any value that is not
  an array, or \<open>max_tokens\<close> is zero; the message names the first field that fails, in
  the order model, messages, max_tokens. An empty \<open>messages\<close> array passes the check.
\<close>

theorem C4_missing_required_field:
  "(q_model request = None \<or> q_messages request = None \<or> \<not> field_isArray (q_messages request)
      \<or> q_max_tokens request = None \<longrightarrow>
      (\<exists>message. handleMessages config getProviderById (ParsedBody request) =
         Inl (RespondError 400
                (JObj [(''type'', JStr ''error''),
                       (''error'', JObj [(''type'', JStr ''invalid_request_error''),
                                         (''message'', JStr message)])]))))
   \<and> (q_model request = None \<or> q_messages request = None \<or> \<not> field_isArray (q_messages request)
      \<longrightarrow>
      (\<exists>message. handleChatCompletions config getProviderById (ParsedBody request) =
         Inl (RespondError 400
                (JObj [(''error'', JObj [(''message'', JStr message),
                                         (''type'', JStr ''invalid_request_error''),
                                         (''param'', JNull),
                                         (''code'', JNull)])]))))
   \<and> (\<not> truthy (q_model request) \<longrightarrow>
        handleMessages config getProviderById (ParsedBody request) =
          Inl (sendError 400 ''invalid_request_error'' ''Missing required field: model'')
        \<and> handleChatCompletions config getProviderById (ParsedBody request) =
          Inl (sendOpenAIError 400 ''invalid_request_error'' ''Missing required field: model''))
   \<and> (truthy (q_model request) \<and> (\<not> field_truthy (q_messages request)
                                    \<or> \<not> field_isArray (q_messages request)) \<longrightarrow>
        handleMessages config getProviderById (ParsedBody request) =
          Inl (sendError 400 ''invalid_request_error'' ''Missing required field: messages'')
        \<and> handleChatCompletions config getProviderById (ParsedBody request) =
          Inl (sendOpenAIError 400 ''invalid_request_error'' ''Missing required field: messages''))
   \<and> (truthy (q_model request) \<and> field_truthy (q_messages request)
        \<and> field_isArray (q_messages request) \<and> \<not> field_truthy (q_max_tokens request) \<longrightarrow>
        handleMessages config getProviderById (ParsedBody request) =
          Inl (sendError 400 ''invalid_request_error'' ''Missing required field: max_tokens''))"
proof -
  have absent: "\<not> truthy None" "\<not> field_truthy None" "\<not> field_isArray None"
    by (simp_all add: truthy_def field_truthy_def field_isArray_def)
  have m1: "q_model request = None \<or> q_messages request = None \<or> \<not> field_isArray (q_messages request)
      \<or> q_max_tokens request = None \<Longrightarrow>
      \<exists>message. handleMessages config getProviderById (ParsedBody request) =
         Inl (RespondError 400
                (JObj [(''type'', JStr ''error''),
                       (''error'', JObj [(''type'', JStr ''invalid_request_error''),
                                         (''message'', JStr message)])]))"
    using absent by (auto simp: handleMessages_def sendError_def)
  have m2: "q_model request = None \<or> q_messages request = None \<or> \<not> field_isArray (q_messages request)
      \<Longrightarrow>
      \<exists>message. handleChatCompletions config getProviderById (ParsedBody request) =
         Inl (RespondError 400
                (JObj [(''error'', JObj [(''message'', JStr message),
                                         (''type'', JStr ''invalid_request_error''),
                                         (''param'', JNull),
                                         (''code'', JNull)])]))"
    using absent by (auto simp: handleChatCompletions_def sendOpenAIError_def)
  have m3: "\<not> truthy (q_model request) \<Longrightarrow>
        handleMessages config getProviderById (ParsedBody request) =
          Inl (sendError 400 ''invalid_request_error'' ''Missing required field: model'')
        \<and> handleChatCompletions config getProviderById (ParsedBody request) =
          Inl (sendOpenAIError 400 ''invalid_request_error'' ''Missing required field: model'')"
    by (simp add: handleMessages_def handleChatCompletions_def)
  have m4: "truthy (q_model request) \<and> (\<not> field_truthy (q_messages request)
                                    \<or> \<not> field_isArray (q_messages request)) \<Longrightarrow>
        handleMessages config getProviderById (ParsedBody request) =
          Inl (sendError 400 ''invalid_request_error'' ''Missing required field: messages'')
        \<and> handleChatCompletions config getProviderById (ParsedBody request) =
          Inl (sendOpenAIError 400 ''invalid_request_error'' ''Missing required field: messages'')"
    by (auto simp: handleMessages_def handleChatCompletions_def)
  have m5: "truthy (q_model request) \<and> field_truthy (q_messages request)
        \<and> field_isArray (q_messages request) \<and> \<not> field_truthy (q_max_tokens request) \<Longrightarrow>
        handleMessages config getProviderById (ParsedBody request) =
          Inl (sendError 400 ''invalid_request_error'' ''Missing required field: max_tokens'')"
    by (simp add: handleMessages_def)
  from m1 m2 m3 m4 m5 show ?thesis by blast
qed

lemma route_slash_model: "mapClaudeModel ''anthropic/claude-3-opus'' None None = Mapping ''anthropic'' ''claude-3-opus''"
  by code_simp

text \<open>
  C4 as stated fails for an empty \<open>messages\<close> array: a request with a model that maps, a
  known provider, \<open>max_tokens\<close> and \<open>"messages": []\<close> is not answered with 400 by either
  endpoint; it passes validation and routing and is handed to the streaming handler. (With
  no messages, no system prompt and no tools the converter's loops do not run.)
\<close>

theorem C4_empty_messages_counterexample:
  "q_messages empty_messages_request = Some (JArr [])
   \<and> handleMessages no_defaults any_provider (ParsedBody empty_messages_request)
       = Inr (ToStreamingHandler (Mapping ''anthropic'' ''claude-3-opus''))
   \<and> handleChatCompletions no_defaults any_provider (ParsedBody empty_messages_request)
       = Inr (ToStreamingHandler (Mapping ''anthropic'' ''claude-3-opus''))"
  by (simp add: handleMessages_def handleChatCompletions_def empty_messages_request_def
      no_defaults_def any_provider_def truthy_def field_truthy_def field_isArray_def
      text_of_def route_slash_model Let_def)

theorem C4_missing_required_field_witness:
  "handleMessages no_defaults any_provider (ParsedBody (empty_messages_request\<lparr>q_max_tokens := None\<rparr>))
     = Inl (sendError 400 ''invalid_request_error'' ''Missing required field: max_tokens'')
   \<and> handleMessages no_defaults any_provider
        (ParsedBody (empty_messages_request\<lparr>q_messages := Some (JStr ''hello'')\<rparr>))
     = Inl (sendError 400 ''invalid_request_error'' ''Missing required field: messages'')
   \<and> handleChatCompletions no_defaults any_provider
        (ParsedBody (empty_messages_request\<lparr>q_model := None\<rparr>))
     = Inl (sendOpenAIError 400 ''invalid_request_error'' ''Missing required field: model'')"
  using C4_missing_required_field [of "empty_messages_request\<lparr>q_max_tokens := None\<rparr>"
          no_defaults any_provider]
    C4_missing_required_field [of "empty_messages_request\<lparr>q_messages := Some (JStr ''hello'')\<rparr>"
          no_defaults any_provider]
    C4_missing_required_field [of "empty_messages_request\<lparr>q_model := None\<rparr>"
          no_defaults any_provider]
  by (simp add: empty_messages_request_def truthy_def field_truthy_def field_isArray_def)

subsection \<open>The model router\<close>

lemma mapClaudeModel_defaults_win:
  "truthy defaultProvider \<Longrightarrow> truthy defaultModel \<Longrightarrow>
     mapClaudeModel modelString defaultProvider defaultModel
       = Mapping (text_of defaultProvider) (text_of defaultModel)"
  by (simp add: mapClaudeModel_def)

lemma mapClaudeModel_examples:
  "mapClaudeModel ''other/thing'' (Some ''p'') (Some ''m'') = Mapping ''p'' ''m''
   \<and> mapClaudeModel ''other/thing'' None None = Mapping ''other'' ''thing''
   \<and> mapClaudeModel ''acme,gpt'' None None = Mapping ''acme'' ''gpt''
   \<and> mapClaudeModel ''claude-3-opus-20240229'' (Some ''p'') None
       = Mapping ''anthropic'' ''claude-3-opus-20240229''
   \<and> mapClaudeModel ''gpt-4o'' (Some ''p'') None = Mapping ''p'' ''gpt-4o''
   \<and> mapClaudeModel ''gpt-4o'' None (Some ''m'') = NoMapping"
  by code_simp

text \<open>
  The precedence of the router on model strings with at most one separator: the defaults
  first; a string with one slash is cut at it; a string with one comma and no slash is cut
  at the comma and both parts are trimmed; otherwise the table; otherwise the default
  provider with the string itself; otherwise no mapping.
\<close>

lemma split_on_no_separator: "sep \<notin> set s \<Longrightarrow> split_on sep s = [s]"
  by (induction s) auto

lemma split_on_first_separator:
  "sep \<notin> set p \<Longrightarrow> split_on sep (p @ sep # rest) = p # split_on sep rest"
  by (induction p) auto

lemma split_two_single:
  "sep \<notin> set p \<Longrightarrow> sep \<notin> set m \<Longrightarrow> p \<noteq> [] \<Longrightarrow> m \<noteq> [] \<Longrightarrow>
     split_two (p @ sep # m) sep = Some (p, m)"
  by (simp add: split_two_def js_includes_def js_split_def split_on_first_separator
      split_on_no_separator)

lemma split_two_absent: "sep \<notin> set s \<Longrightarrow> split_two s sep = None"
  by (simp add: split_two_def js_includes_def)

lemma mapClaudeModel_precedence:
  assumes "\<not> (truthy dp \<and> truthy dm)"
  shows "CHR ''/'' \<notin> set p \<Longrightarrow> CHR ''/'' \<notin> set m \<Longrightarrow> p \<noteq> [] \<Longrightarrow> m \<noteq> [] \<Longrightarrow>
           mapClaudeModel (p @ CHR ''/'' # m) dp dm = Mapping p m"
    and "CHR ''/'' \<notin> set (p @ m) \<Longrightarrow> CHR '','' \<notin> set p \<Longrightarrow> CHR '','' \<notin> set m \<Longrightarrow> p \<noteq> [] \<Longrightarrow>
           m \<noteq> [] \<Longrightarrow> mapClaudeModel (p @ CHR '','' # m) dp dm = Mapping (trim p) (trim m)"
    and "CHR ''/'' \<notin> set s \<Longrightarrow> CHR '','' \<notin> set s \<Longrightarrow> map_of claudeModelMappings s = Some (tp, tm) \<Longrightarrow>
           mapClaudeModel s dp dm = Mapping tp tm"
    and "CHR ''/'' \<notin> set s \<Longrightarrow> CHR '','' \<notin> set s \<Longrightarrow> map_of claudeModelMappings s = None \<Longrightarrow>
           s \<notin> set object_prototype_members \<Longrightarrow>
           mapClaudeModel s dp dm = (if truthy dp then Mapping (text_of dp) s else NoMapping)"
proof -
  show "CHR ''/'' \<notin> set p \<Longrightarrow> CHR ''/'' \<notin> set m \<Longrightarrow> p \<noteq> [] \<Longrightarrow> m \<noteq> [] \<Longrightarrow>
           mapClaudeModel (p @ CHR ''/'' # m) dp dm = Mapping p m"
    using assms by (auto simp: mapClaudeModel_def split_two_single)
  show "CHR ''/'' \<notin> set (p @ m) \<Longrightarrow> CHR '','' \<notin> set p \<Longrightarrow> CHR '','' \<notin> set m \<Longrightarrow> p \<noteq> [] \<Longrightarrow>
           m \<noteq> [] \<Longrightarrow> mapClaudeModel (p @ CHR '','' # m) dp dm = Mapping (trim p) (trim m)"
    using assms
    by (auto simp: mapClaudeModel_def split_two_single split_two_absent [of "CHR ''/''"])
  show "CHR ''/'' \<notin> set s \<Longrightarrow> CHR '','' \<notin> set s \<Longrightarrow> map_of claudeModelMappings s = Some (tp, tm) \<Longrightarrow>
           mapClaudeModel s dp dm = Mapping tp tm"
    using assms by (auto simp: mapClaudeModel_def split_two_absent)
  show "CHR ''/'' \<notin> set s \<Longrightarrow> CHR '','' \<notin> set s \<Longrightarrow> map_of claudeModelMappings s = None \<Longrightarrow>
           s \<notin> set object_prototype_members \<Longrightarrow>
           mapClaudeModel s dp dm = (if truthy dp then Mapping (text_of dp) s else NoMapping)"
    using assms by (auto simp: mapClaudeModel_def split_two_absent)
qed

text \<open>
  C3. The model string \<open>openrouter/anthropic/claude-3.5-sonnet\<close> (the id that
  \<open>GET /v1/models\<close> lists for the model \<open>anthropic/claude-3.5-sonnet\<close> of the provider
  \<open>openrouter\<close>) is resolved to the provider \<open>openrouter\<close> and the model \<open>anthropic\<close>:
  \<open>split('/', 2)\<close> cuts at every separator and keeps the first two pieces, so what follows
  the second separator is lost. The same happens with the comma.
\<close>

theorem C3_split_keeps_two_pieces:
  "mapClaudeModel ''openrouter/anthropic/claude-3.5-sonnet'' None None
     = Mapping ''openrouter'' ''anthropic''
   \<and> mapClaudeModel ''a,b,c'' None None = Mapping ''a'' ''b''"
  by code_simp

subsection \<open>The final events and the stop reason\<close>

lemma close_tool_blocks_concat:
  "close_tool_blocks acc entries =
     acc @ concat (map (\<lambda>entry. formatSSE (buildContentBlockStopEvent (index (snd entry)))) entries)"
  by (induction entries arbitrary: acc) auto

lemma getFinalEvents_frames:
  "getFinalEvents b =
     formatSSE (buildContentBlockStopEvent (textBlockIndex b))
       @ concat (map (\<lambda>entry. formatSSE (buildContentBlockStopEvent (index (snd entry))))
                   (currentToolCalls b))
       @ formatSSE (buildMessageDeltaEvent
                      (if currentToolCalls b \<noteq> [] then Some Tool_use
                       else (case stopReason b of None \<Rightarrow> Some End_turn | Some r \<Rightarrow> Some r))
                      (usage b))
       @ formatSSE buildMessageStopEvent"
  by (simp add: getFinalEvents_def Let_def close_tool_blocks_concat final_stop_reason_def)

text \<open>
  The example stream with its text and its tool call, as both streaming handlers put it
  on the wire.
\<close>

lemma demo_events_on_the_wire:
  \<open>handleStreamingResponse ''u'' ''m'' (map (Pair False) demo_events) Normal
     = EventStream
         [''event: message_start'' @ [newline]
            @ ''data: {"type":"message_start","message":{"id":"msg_u","type":"message",''
            @ ''"role":"assistant","model":"m","content":[],"stop_reason":null,''
            @ ''"stop_sequence":null,"usage":{"input_tokens":0,"output_tokens":0}}}''
            @ [newline, newline]
            @ ''event: content_block_start'' @ [newline]
            @ ''data: {"type":"content_block_start","index":0,''
            @ ''"content_block":{"type":"text","text":""}}'' @ [newline, newline]
            @ ''event: ping'' @ [newline] @ ''data: {"type":"ping"}'' @ [newline, newline],
          ''event: content_block_delta'' @ [newline]
            @ ''data: {"type":"content_block_delta","index":0,''
            @ ''"delta":{"type":"text_delta","text":"Hi"}}'' @ [newline, newline],
          ''event: content_block_start'' @ [newline]
            @ ''data: {"type":"content_block_start","index":1,''
            @ ''"content_block":{"type":"tool_use","id":"t1","name":"get","input":{}}}''
            @ [newline, newline],
          ''event: content_block_delta'' @ [newline]
            @ ''data: {"type":"content_block_delta","index":1,''
            @ ''"delta":{"type":"input_json_delta","partial_json":"{''
            @ [backslash] @ ''"a'' @ [backslash] @ ''":1}"}}'' @ [newline, newline],
          ''event: content_block_stop'' @ [newline]
            @ ''data: {"type":"content_block_stop","index":0}'' @ [newline, newline]
            @ ''event: content_block_stop'' @ [newline]
            @ ''data: {"type":"content_block_stop","index":1}'' @ [newline, newline]
            @ ''event: message_delta'' @ [newline]
            @ ''data: {"type":"message_delta","delta":{"stop_reason":"tool_use",''
            @ ''"stop_sequence":null},"usage":{"input_tokens":0,"output_tokens":0}}''
            @ [newline, newline]
            @ ''event: message_stop'' @ [newline] @ ''data: {"type":"message_stop"}''
            @ [newline, newline]]
   \<and> handleOpenAIStreamingResponse ''u'' 7 ''m'' (map (Pair False) demo_events) Normal
     = EventStream
         [''data: {"id":"chatcmpl-u","object":"chat.completion.chunk","created":7,''
            @ ''"model":"m","choices":[{"index":0,"delta":{"role":"assistant","content":""},''
            @ ''"finish_reason":null}]}'' @ [newline, newline],
          ''data: {"id":"chatcmpl-u","object":"chat.completion.chunk","created":7,''
            @ ''"model":"m","choices":[{"index":0,"delta":{"content":"Hi"},''
            @ ''"finish_reason":null}]}'' @ [newline, newline],
          ''data: {"id":"chatcmpl-u","object":"chat.completion.chunk","created":7,''
            @ ''"model":"m","choices":[{"index":0,"delta":{"tool_calls":[{"index":0,"id":"t1",''
            @ ''"type":"function","function":{"name":"get","arguments":""}}]},''
            @ ''"finish_reason":null}]}'' @ [newline, newline],
          ''data: {"id":"chatcmpl-u","object":"chat.completion.chunk","created":7,''
            @ ''"model":"m","choices":[{"index":0,"delta":{"tool_calls":[{"index":0,''
            @ ''"function":{"arguments":"{'' @ [backslash] @ ''"a'' @ [backslash] @ ''":1}"}}]},''
            @ ''"finish_reason":null}]}'' @ [newline, newline],
          ''data: {"id":"chatcmpl-u","object":"chat.completion.chunk","created":7,''
            @ ''"model":"m","choices":[{"index":0,"delta":{},"finish_reason":"tool_calls"}],''
            @ ''"usage":{"prompt_tokens":0,"completion_tokens":0,"total_tokens":0}}''
            @ [newline, newline],
          ''data: [DONE]'' @ [newline, newline]]\<close>
  by code_simp

text \<open>
  C5. For a stream that starts a tool call and ends without an update of its arguments,
  \<open>handleOpenAINonStreamingResponse\<close> answers with finish reason \<open>stop\<close> and without tool
  calls, while \<open>handleNonStreamingResponse\<close> answers the same stream with the tool_use
  block and stop reason \<open>tool_use\<close>, and the OpenAI streaming handler ends it with
  finish reason \<open>tool_calls\<close>.
\<close>

theorem C5_openai_non_streaming_finish_reason:
  "handleOpenAINonStreamingResponse ''u'' 7 ''m'' start_only_events Normal
     = Respond 200 (buildOpenAIResponse ''u'' 7 ''m'' None None (Some Stop) 0 0)
   \<and> handleNonStreamingResponse ''u'' ''m'' start_only_events Normal
     = Respond 200 (buildNonStreamingResponse ''u'' ''m'' [ToolUseBlock ''t1'' ''get'' EmptyObject]
                      (Some Tool_use) \<lparr>input_tokens = 0, output_tokens = 0\<rparr>)
   \<and> (\<exists>ws b. handleOpenAIStreamingResponse ''u'' 7 ''m'' (map (Pair False) start_only_events) Normal
              = EventStream (ws @ [buildFinalChunk b (Some Tool_calls), formatOpenAISSEDone]))"
proof -
  have 1: "handleOpenAINonStreamingResponse ''u'' 7 ''m'' start_only_events Normal
     = Respond 200 (buildOpenAIResponse ''u'' 7 ''m'' None None (Some Stop) 0 0)"
    by (simp add: handleOpenAINonStreamingResponse_def start_only_events_def on_response_def
        response_data_def truthy_def text_of_def Let_def mapToOpenAIFinishReason_def)
  have 2: "handleNonStreamingResponse ''u'' ''m'' start_only_events Normal
     = Respond 200 (buildNonStreamingResponse ''u'' ''m'' [ToolUseBlock ''t1'' ''get'' EmptyObject]
                      (Some Tool_use) \<lparr>input_tokens = 0, output_tokens = 0\<rparr>)"
    by (simp add: handleNonStreamingResponse_def start_only_events_def n_response_def
        response_data_def truthy_def text_of_def Let_def build_content_def)
  have 3: "\<exists>ws b. handleOpenAIStreamingResponse ''u'' 7 ''m'' (map (Pair False) start_only_events) Normal
              = EventStream (ws @ [buildFinalChunk b (Some Tool_calls), formatOpenAISSEDone])"
    by (simp add: handleOpenAIStreamingResponse_def start_only_events_def os_response_def
        response_data_def truthy_def text_of_def Let_def mapToOpenAIFinishReason_def
        buildToolCallStartChunk_def os_write_def hasToolCalls_def oa_setUsage_def buildDone_def
        new_OpenAIStreamingBuilder_def)
      (metis append_Cons append_Nil)
  from 1 2 3 show ?thesis by blast
qed

end
